theory Spec2Isabelle
  imports Complex_Main
begin

section \<open>Python values and errors\<close>

text \<open>
  Exceptions of the program and of the library calls it makes are values of \<open>error\<close>;
  a computation that may raise has type \<open>error + 'a\<close> with \<open>Inl\<close> for the raise.
  \<open>Unmodelled\<close> marks library behaviour that this development does not describe
  (format conversions other than \<open>%s\<close>, data-frame columns that are not arrays,
  timestamps that are not numbers); no theorem below asserts anything about what the
  program does there beyond the outcome not being a table.
\<close>

datatype error =
    KeyError string
  | IndexError
  | TypeError string
  | AttributeError string
  | ValueError string
  | OverflowError
  | OutOfBoundsDatetime
  | JSONDecodeError
  | TransportError string
  | Unmodelled

definition bind :: "error + 'a \<Rightarrow> ('a \<Rightarrow> error + 'b) \<Rightarrow> error + 'b" where
  "bind m f = (case m of Inl e \<Rightarrow> Inl e | Inr x \<Rightarrow> f x)"

text \<open>
  A Python number as \<open>__init__\<close> may receive it for \<open>start\<close> and \<open>end\<close>
  (\<open>Union[int, float]\<close>): an unbounded integer, a finite float (the real number it
  denotes), or one of the three non-finite floats.
\<close>

datatype pynum = PyInt int | PyFloat real | PyPosInf | PyNegInf | PyNaN

text \<open>\<open>int(x)\<close>: the identity on integers, truncation toward zero on finite floats,
  \<open>OverflowError\<close> on an infinity and \<open>ValueError\<close> on NaN.\<close>

fun py_int :: "pynum \<Rightarrow> error + int" where
  "py_int (PyInt n) = Inr n"
| "py_int (PyFloat x) = Inr (if 0 \<le> x then \<lfloor>x\<rfloor> else \<lceil>x\<rceil>)"
| "py_int PyPosInf = Inl OverflowError"
| "py_int PyNegInf = Inl OverflowError"
| "py_int PyNaN = Inl (ValueError ''cannot convert float NaN to integer'')"

text \<open>\<open>str(n)\<close> for an integer: decimal digits, most significant first, with a leading
  minus sign for a negative number.\<close>

definition digit_char :: "nat \<Rightarrow> char" where
  "digit_char d = ''0123456789'' ! d"

function str_nat :: "nat \<Rightarrow> string" where
  "str_nat n = (if n < 10 then [digit_char n] else str_nat (n div 10) @ [digit_char (n mod 10)])"
  by pat_completeness auto
termination
  by (relation "measure id") auto

declare str_nat.simps [simp del]

definition str_int :: "int \<Rightarrow> string" where
  "str_int i = (if i < 0 then CHR ''-'' # str_nat (nat (- i)) else str_nat (nat i))"

text \<open>\<open>s.upper()\<close> on ASCII text: the letters a to z become A to Z, every other
  character is kept. (HOL characters are bytes; code points beyond ASCII are left as
  they are.)\<close>

definition upper_char :: "char \<Rightarrow> char" where
  "upper_char c =
     (case map_of (zip ''abcdefghijklmnopqrstuvwxyz'' ''ABCDEFGHIJKLMNOPQRSTUVWXYZ'') c of
        None \<Rightarrow> c
      | Some u \<Rightarrow> u)"

definition upper :: "string \<Rightarrow> string" where
  "upper s = map upper_char s"

text \<open>\<open>sep.join(xs)\<close>.\<close>

fun join :: "string \<Rightarrow> string list \<Rightarrow> string" where
  "join sep [] = []"
| "join sep [x] = x"
| "join sep (x # y # ys) = x @ sep @ join sep (y # ys)"

text \<open>
  The \<open>%\<close> operator of a format string applied to a tuple of arguments, for the
  conversions \<open>%s\<close> and \<open>%%\<close>, read left to right: too few arguments and arguments
  left over are \<open>TypeError\<close>s, a lone \<open>%\<close> at the end is a \<open>ValueError\<close>.
\<close>

datatype fmt_arg = ArgStr string | ArgInt int

fun py_str :: "fmt_arg \<Rightarrow> string" where
  "py_str (ArgStr s) = s"
| "py_str (ArgInt i) = str_int i"

fun py_format :: "string \<Rightarrow> fmt_arg list \<Rightarrow> error + string" where
  "py_format [] [] = Inr []"
| "py_format [] (a # as) = Inl (TypeError ''not all arguments converted during string formatting'')"
| "py_format [c] as =
     (if c = CHR ''%'' then Inl (ValueError ''incomplete format'')
      else bind (py_format [] as) (\<lambda>r. Inr (c # r)))"
| "py_format (c # k # rest) as =
     (if c \<noteq> CHR ''%'' then bind (py_format (k # rest) as) (\<lambda>r. Inr (c # r))
      else if k = CHR ''%'' then bind (py_format rest as) (\<lambda>r. Inr (CHR ''%'' # r))
      else if k = CHR ''s'' then
        (case as of
           [] \<Rightarrow> Inl (TypeError ''not enough arguments for format string'')
         | a # as' \<Rightarrow> bind (py_format rest as') (\<lambda>r. Inr (py_str a @ r)))
      else Inl Unmodelled)"

section \<open>The constants module\<close>

text \<open>
  \<open>fetch.py\<close> imports \<open>API_URL\<close>, \<open>DATE_INTERVALS\<close> and \<open>ONE_DAY_INTERVAL\<close> from
  the package's \<open>constants\<close> module. Their values are parameters of everything below.
\<close>

record constants =
  API_URL :: string
  DATE_INTERVALS :: "string list"
  ONE_DAY_INTERVAL :: string

section \<open>The Fetcher class\<close>

record fetcher =
  ticker :: string
  interval :: string
  start :: int
  end' :: int


text \<open>
  What the program reads and changes outside the object: the clock that \<open>time.time()\<close>
  reads, and the requests handed to the HTTP collaborator so far (URL and headers, oldest
  first).
\<close>

record world =
  clock :: real
  sent :: "(string \<times> (string \<times> string) list) list"

definition time_time :: "world \<Rightarrow> pynum" where
  "time_time w = PyFloat (clock w)"

text \<open>
  The default values of \<open>__init__\<close>'s parameters are expressions in the \<open>def\<close>
  header: Python evaluates them once, when the class body is executed at module load,
  and keeps the results for every later call. \<open>Fetcher_defaults c w0\<close> are those results
  for a module loaded in world \<open>w0\<close>.
\<close>

record defaults =
  default_end :: pynum
  default_interval :: string

definition Fetcher_defaults :: "constants \<Rightarrow> world \<Rightarrow> defaults" where
  "Fetcher_defaults c w0 = \<lparr> default_end = time_time w0, default_interval = ONE_DAY_INTERVAL c \<rparr>"

text \<open>
  \<open>Fetcher.__init__(self, ticker, start, end=..., interval=...)\<close>, called in world
  \<open>w\<close>; an omitted argument is \<open>None\<close> here and takes its stored default. The body
  does not read the world.
\<close>

definition Fetcher_init ::
  "defaults \<Rightarrow> string \<Rightarrow> pynum \<Rightarrow> pynum option \<Rightarrow> string option \<Rightarrow> world \<Rightarrow> error + fetcher" where
  "Fetcher_init d ticker_arg start_arg end_arg interval_arg w =
     (let end_val = (case end_arg of None \<Rightarrow> default_end d | Some e \<Rightarrow> e);
          interval_val = (case interval_arg of None \<Rightarrow> default_interval d | Some i \<Rightarrow> i)
      in bind (py_int start_arg) (\<lambda>s.
         bind (py_int end_val) (\<lambda>e.
         Inr \<lparr> ticker = upper ticker_arg, interval = interval_val, start = s, end' = e \<rparr>)))"

text \<open>
  A method runs on the object and the world and returns its result with both, so that
  an assignment to a field of \<open>self\<close> or a request would show in what it returns.
\<close>

type_synonym 'a action = "fetcher \<times> world \<Rightarrow> (error + 'a) \<times> fetcher \<times> world"

definition create_url :: "constants \<Rightarrow> string \<Rightarrow> string action" where
  "create_url c event = (\<lambda>(self, w).
     (py_format (API_URL c)
        [ArgStr (ticker self), ArgInt (start self), ArgInt (end' self),
         ArgStr (interval self), ArgStr event],
      self, w))"

section \<open>JSON documents and the response\<close>

datatype json =
    JNull
  | JBool bool
  | JInt int
  | JFloat real
  | JStr string
  | JArr "json list"
  | JObj "(string \<times> json) list"

text \<open>
  The decoded values are Python objects: an object is a \<open>dict\<close> (the list holds its
  items; a key is looked up with \<open>map_of\<close>), an array a \<open>list\<close>. The three accesses
  the program makes are \<open>x[key]\<close> with a string key, \<open>x[0]\<close> and \<open>x.get(key, [])\<close>.
\<close>

fun getitem :: "json \<Rightarrow> string \<Rightarrow> error + json" where
  "getitem (JObj kvs) k = (case map_of kvs k of None \<Rightarrow> Inl (KeyError k) | Some v \<Rightarrow> Inr v)"
| "getitem (JArr xs) k = Inl (TypeError ''list indices must be integers or slices, not str'')"
| "getitem (JStr s) k = Inl (TypeError ''string indices must be integers, not str'')"
| "getitem j k = Inl (TypeError ''object is not subscriptable'')"

fun getitem0 :: "json \<Rightarrow> error + json" where
  "getitem0 (JArr []) = Inl IndexError"
| "getitem0 (JArr (x # xs)) = Inr x"
| "getitem0 (JStr []) = Inl IndexError"
| "getitem0 (JStr (ch # s)) = Inr (JStr [ch])"
| "getitem0 (JObj kvs) = Inl (KeyError ''0'')"
| "getitem0 j = Inl (TypeError ''object is not subscriptable'')"

fun dict_get :: "json \<Rightarrow> string \<Rightarrow> json \<Rightarrow> error + json" where
  "dict_get (JObj kvs) k dflt = (case map_of kvs k of None \<Rightarrow> Inr dflt | Some v \<Rightarrow> Inr v)"
| "dict_get j k dflt = Inl (AttributeError ''object has no attribute get'')"

text \<open>
  The collaborator: \<open>requests.get(url, headers)\<close> fails with a transport error of its
  own (here its description) or returns a response, whose \<open>json()\<close> fails with a
  decoding error or returns the decoded body. The program calls nothing else on it.
\<close>

datatype response = Response (json_body: "json option")

type_synonym transport = "string \<Rightarrow> (string \<times> string) list \<Rightarrow> string + response"

definition response_json :: "response \<Rightarrow> error + json" where
  "response_json resp = (case json_body resp of None \<Rightarrow> Inl JSONDecodeError | Some j \<Rightarrow> Inr j)"

definition requests_get ::
  "transport \<Rightarrow> string \<Rightarrow> (string \<times> string) list \<Rightarrow> world \<Rightarrow> (error + response) \<times> world" where
  "requests_get tr url headers w =
     ((case tr url headers of Inl msg \<Rightarrow> Inl (TransportError msg) | Inr resp \<Rightarrow> Inr resp),
      w\<lparr> sent := sent w @ [(url, headers)] \<rparr>)"

section \<open>The data frame\<close>

text \<open>
  A pandas \<open>DataFrame\<close> with the default index \<open>0 .. nrows - 1\<close>: the columns in
  their order, each a name and \<open>nrows\<close> cells. A cell holds a decoded JSON value or,
  in the intermediate \<open>time\<close> column, a \<open>Timestamp\<close>: nanoseconds since
  1970-01-01 00:00:00 UTC, with no time zone attached. The conversion of numeric cells
  to a column's machine type (a null in a numeric column is stored as NaN) is not
  described: a cell is the value the array held at that position.
\<close>

datatype cell = Val json | Timestamp int

record dataframe =
  nrows :: nat
  cols :: "(string \<times> cell list) list"

text \<open>
  \<open>pd.DataFrame(d)\<close> for a dict \<open>d\<close> (its items in insertion order) whose values
  are lists: the lists must all have one length, or pandas raises
  \<open>ValueError: All arrays must be of the same length\<close>. What pandas does with a value
  that is not a list (a scalar is repeated, a dict is aligned by its keys) is not
  described.
\<close>

fun collect_arrays :: "(string \<times> json) list \<Rightarrow> (string \<times> json list) list option" where
  "collect_arrays [] = Some []"
| "collect_arrays ((k, JArr xs) # d) = map_option ((#) (k, xs)) (collect_arrays d)"
| "collect_arrays ((k, v) # d) = None"

definition pd_DataFrame :: "(string \<times> json) list \<Rightarrow> error + dataframe" where
  "pd_DataFrame d =
     (case collect_arrays d of
        None \<Rightarrow> Inl Unmodelled
      | Some arrays \<Rightarrow>
          let lens = remdups (map (\<lambda>(k, xs). length xs) arrays)
          in if length lens > 1 then Inl (ValueError ''All arrays must be of the same length'')
             else Inr \<lparr> nrows = (case lens of [] \<Rightarrow> 0 | n # ns \<Rightarrow> n),
                        cols = map (\<lambda>(k, xs). (k, map Val xs)) arrays \<rparr>)"

text \<open>\<open>df[name]\<close>, \<open>df[name] = values\<close>, \<open>del df[name]\<close>, \<open>df.columns.tolist()\<close>
  and \<open>df[names]\<close> for a list of names.\<close>

definition df_getcol :: "dataframe \<Rightarrow> string \<Rightarrow> error + cell list" where
  "df_getcol df name = (case map_of (cols df) name of None \<Rightarrow> Inl (KeyError name) | Some xs \<Rightarrow> Inr xs)"

definition df_setcol :: "dataframe \<Rightarrow> string \<Rightarrow> cell list \<Rightarrow> error + dataframe" where
  "df_setcol df name xs =
     (if length xs \<noteq> nrows df then Inl (ValueError ''Length of values does not match length of index'')
      else if name \<in> set (map fst (cols df))
        then Inr (df\<lparr> cols := map (\<lambda>(k, ys). if k = name then (k, xs) else (k, ys)) (cols df) \<rparr>)
        else Inr (df\<lparr> cols := cols df @ [(name, xs)] \<rparr>))"

definition df_delcol :: "dataframe \<Rightarrow> string \<Rightarrow> error + dataframe" where
  "df_delcol df name =
     (if name \<in> set (map fst (cols df))
        then Inr (df\<lparr> cols := filter (\<lambda>(k, ys). k \<noteq> name) (cols df) \<rparr>)
        else Inl (KeyError name))"

definition df_columns :: "dataframe \<Rightarrow> string list" where
  "df_columns df = map fst (cols df)"

fun df_select_cols :: "(string \<times> cell list) list \<Rightarrow> string list \<Rightarrow> error + (string \<times> cell list) list" where
  "df_select_cols cs [] = Inr []"
| "df_select_cols cs (name # names) =
     (case map_of cs name of
        None \<Rightarrow> Inl (KeyError name)
      | Some xs \<Rightarrow> bind (df_select_cols cs names) (\<lambda>r. Inr ((name, xs) # r)))"

definition df_select :: "dataframe \<Rightarrow> string list \<Rightarrow> error + dataframe" where
  "df_select df names = bind (df_select_cols (cols df) names) (\<lambda>cs. Inr (df\<lparr> cols := cs \<rparr>))"

text \<open>The slices \<open>xs[-1:]\<close> and \<open>xs[:-1]\<close> of a list.\<close>

definition slice_last :: "'a list \<Rightarrow> 'a list" where
  "slice_last xs = (if xs = [] then [] else [last xs])"

definition slice_but_last :: "'a list \<Rightarrow> 'a list" where
  "slice_but_last xs = butlast xs"

section \<open>Timestamps and dates\<close>

text \<open>
  The installed pandas. \<open>fetch.py\<close> imports pandas and pins no version of it. What
  differs between versions and matters here is the range of instants that a datetime
  column can hold: a signed 64-bit count of nanoseconds, the years 1677 to 2262, before
  pandas 3, and later years as well since. The range is a parameter:
  \<open>representable lib ns\<close> says whether the pandas \<open>lib\<close> holds the instant \<open>ns\<close>
  nanoseconds after the epoch.
\<close>

record pandas =
  representable :: "int \<Rightarrow> bool"

text \<open>
  \<open>pd.to_datetime(column, unit='s')\<close> on a column of numbers reads each as seconds
  since the epoch, in UTC: an integer exactly, a float to the nanosecond. An instant that
  the library cannot hold raises \<open>OutOfBoundsDatetime\<close>. Columns with a cell that is
  not a number (a null, a string) are not described.
\<close>

fun is_number_cell :: "cell \<Rightarrow> bool" where
  "is_number_cell (Val (JInt t)) = True"
| "is_number_cell (Val (JFloat x)) = True"
| "is_number_cell c = False"

fun ns_of_cell :: "cell \<Rightarrow> int" where
  "ns_of_cell (Val (JInt t)) = t * 1000000000"
| "ns_of_cell (Val (JFloat x)) = round (x * 1000000000)"
| "ns_of_cell c = 0"

definition pd_to_datetime_s :: "pandas \<Rightarrow> cell list \<Rightarrow> error + cell list" where
  "pd_to_datetime_s lib xs =
     (if \<not> list_all is_number_cell xs then Inl Unmodelled
      else if \<not> list_all (\<lambda>x. representable lib (ns_of_cell x)) xs then Inl OutOfBoundsDatetime
      else Inr (map (\<lambda>x. Timestamp (ns_of_cell x)) xs))"

text \<open>
  The calendar fields of a day number (days since 1970-01-01), computed the way the
  date-time code under pandas does: the day is placed in its 400-year cycle counted from
  2000, then in the century, the 4-year group and the year; the month is found by walking
  the table of month lengths.
\<close>

definition is_leapyear :: "int \<Rightarrow> bool" where
  "is_leapyear y \<longleftrightarrow> y mod 4 = 0 \<and> (y mod 100 \<noteq> 0 \<or> y mod 400 = 0)"

definition days_to_yearsdays :: "int \<Rightarrow> int \<times> int" where
  "days_to_yearsdays d0 =
     (let days = d0 - (365 * 30 + 7);
          year = 400 * (days div 146097);
          days = days mod 146097
      in if days \<ge> 366 then
           let year = year + 100 * ((days - 1) div 36524);
               days = (days - 1) mod 36524
           in if days \<ge> 365 then
                let year = year + 4 * ((days + 1) div 1461);
                    days = (days + 1) mod 1461
                in if days \<ge> 366 then (year + (days - 1) div 365 + 2000, (days - 1) mod 365)
                   else (year + 2000, days)
              else (year + 2000, days)
         else (year + 2000, days))"

definition month_lengths :: "bool \<Rightarrow> int list" where
  "month_lengths leap =
     (if leap then [31, 29, 31, 30, 31, 30, 31, 31, 30, 31, 30, 31]
      else [31, 28, 31, 30, 31, 30, 31, 31, 30, 31, 30, 31])"

text \<open>The loop over the months: \<open>i\<close> months passed, \<open>days\<close> days left. (The table
  runs out only for a day beyond the year's end, which \<open>days_to_yearsdays\<close> never
  gives.)\<close>

fun month_day :: "int list \<Rightarrow> int \<Rightarrow> int \<Rightarrow> int \<times> int" where
  "month_day [] i days = (i + 1, days + 1)"
| "month_day (l # ls) i days =
     (if days < l then (i + 1, days + 1) else month_day ls (i + 1) (days - l))"

definition civil_of_days :: "int \<Rightarrow> int \<times> int \<times> int" where
  "civil_of_days d0 =
     (let (year, days) = days_to_yearsdays d0;
          (month, day) = month_day (month_lengths (is_leapyear year)) 0 days
      in (year, month, day))"

text \<open>\<open>s.zfill(w)\<close>, and \<open>x.strftime('%Y-%m-%d')\<close> for a \<open>Timestamp\<close> of \<open>ns\<close>
  nanoseconds: the year in four digits, the month and the day in two.\<close>

definition zfill :: "nat \<Rightarrow> string \<Rightarrow> string" where
  "zfill w s = replicate (w - length s) CHR ''0'' @ s"

definition strftime_Ymd :: "int \<Rightarrow> string" where
  "strftime_Ymd ns =
     (let (y, m, d) = civil_of_days (ns div 86400000000000)
      in zfill 4 (str_int y) @ ''-'' @ zfill 2 (str_int m) @ ''-'' @ zfill 2 (str_int d))"

text \<open>The function applied to each cell of the \<open>time\<close> column; a value that is not
  a \<open>Timestamp\<close> has no \<open>strftime\<close>.\<close>

fun strftime_cell :: "cell \<Rightarrow> error + cell" where
  "strftime_cell (Timestamp ns) = Inr (Val (JStr (strftime_Ymd ns)))"
| "strftime_cell (Val j) = Inl (AttributeError ''object has no attribute strftime'')"

text \<open>\<open>series.apply(f)\<close>: \<open>f\<close> on each cell in order, stopping at the first raise.\<close>

fun series_apply :: "(cell \<Rightarrow> error + cell) \<Rightarrow> cell list \<Rightarrow> error + cell list" where
  "series_apply f [] = Inr []"
| "series_apply f (x # xs) = bind (f x) (\<lambda>y. bind (series_apply f xs) (\<lambda>ys. Inr (y # ys)))"

section \<open>Normalization: \<open>conv_df\<close>\<close>

definition conv_df :: "pandas \<Rightarrow> response \<Rightarrow> error + dataframe" where
  "conv_df lib resp =
     bind (response_json resp) (\<lambda>j.
     bind (getitem j ''chart'') (\<lambda>chart.
     bind (getitem chart ''result'') (\<lambda>result.
     bind (getitem0 result) (\<lambda>result0.
     bind (getitem result0 ''timestamp'') (\<lambda>timestamps.
     bind (getitem result0 ''indicators'') (\<lambda>inds.
     bind (getitem inds ''quote'') (\<lambda>quote.
     bind (getitem0 quote) (\<lambda>indicators.
     bind (dict_get indicators ''close'' (JArr [])) (\<lambda>close.
     bind (dict_get indicators ''open'' (JArr [])) (\<lambda>open_v.
     bind (dict_get indicators ''high'' (JArr [])) (\<lambda>high.
     bind (dict_get indicators ''low'' (JArr [])) (\<lambda>low.
     bind (dict_get indicators ''volume'' (JArr [])) (\<lambda>volume.
     bind (pd_DataFrame
             [(''timestamp'', timestamps), (''Open'', open_v), (''High'', high),
              (''Low'', low), (''Close'', close), (''Volume'', volume)]) (\<lambda>df.
     bind (df_getcol df ''timestamp'') (\<lambda>ts.
     bind (pd_to_datetime_s lib ts) (\<lambda>times.
     bind (df_setcol df ''time'' times) (\<lambda>df.
     bind (df_getcol df ''time'') (\<lambda>tm.
     bind (series_apply strftime_cell tm) (\<lambda>dates.
     bind (df_setcol df ''Date'' dates) (\<lambda>df.
     bind (df_delcol df ''time'') (\<lambda>df.
     bind (df_delcol df ''timestamp'') (\<lambda>df.
     let cols = df_columns df;
         cols = slice_last cols @ slice_but_last cols
     in df_select df cols))))))))))))))))))))))"

section \<open>Serialization: \<open>to_json\<close>\<close>

text \<open>
  \<open>df.to_json()\<close> writes the frame column by column: a JSON object with one member
  for each column, named after it, whose value is an object with one member for each
  row, named by the row's index label in decimal. It refuses a frame with two columns
  of one name. A \<open>Timestamp\<close> is written as milliseconds since the epoch. The string
  is represented by the document it encodes; how the text spells each value is not
  described.
\<close>

fun cell_json :: "cell \<Rightarrow> json" where
  "cell_json (Val j) = j"
| "cell_json (Timestamp ns) = JInt (ns div 1000000)"

definition to_json :: "dataframe \<Rightarrow> error + json" where
  "to_json df =
     (if \<not> distinct (df_columns df)
        then Inl (ValueError ''DataFrame columns must be unique for orient=columns'')
      else Inr (JObj (map (\<lambda>(name, xs).
                  (name, JObj (zip (map str_nat [0 ..< length xs]) (map cell_json xs))))
                (cols df))))"

section \<open>Fetching\<close>

datatype result = Table dataframe | Serialized json

definition user_agent :: "(string \<times> string) list" where
  "user_agent =
     [(''User-agent'', ''Mozilla/4.0 (compatible; MSIE 6.0; Windows NT 5.2; .NET CLR 1.0.3705;)'')]"

definition interval_error :: "constants \<Rightarrow> error" where
  "interval_error c =
     ValueError (''Incorrect interval: valid intervals are '' @ join '', '' (DATE_INTERVALS c))"

text \<open>\<open>Fetcher._get(self, event, as_dataframe)\<close>, with the installed pandas \<open>lib\<close>
  and the collaborator \<open>tr\<close>.\<close>

definition Fetcher_get :: "constants \<Rightarrow> pandas \<Rightarrow> transport \<Rightarrow> string \<Rightarrow> bool \<Rightarrow> result action" where
  "Fetcher_get c lib tr event as_dataframe = (\<lambda>(self, w).
     if interval self \<notin> set (DATE_INTERVALS c) then (Inl (interval_error c), self, w)
     else
       case create_url c event (self, w) of
         (Inl e, self, w) \<Rightarrow> (Inl e, self, w)
       | (Inr url, self, w) \<Rightarrow>
           (case requests_get tr url user_agent w of
              (Inl e, w) \<Rightarrow> (Inl e, self, w)
            | (Inr data, w) \<Rightarrow>
                (case conv_df lib data of
                   Inl e \<Rightarrow> (Inl e, self, w)
                 | Inr dataframe \<Rightarrow>
                     if as_dataframe then (Inr (Table dataframe), self, w)
                     else (bind (to_json dataframe) (\<lambda>s. Inr (Serialized s)), self, w))))"

definition get_historical :: "constants \<Rightarrow> pandas \<Rightarrow> transport \<Rightarrow> bool \<Rightarrow> result action" where
  "get_historical c lib tr as_dataframe = Fetcher_get c lib tr ''history'' as_dataframe"

definition get_dividends :: "constants \<Rightarrow> pandas \<Rightarrow> transport \<Rightarrow> bool \<Rightarrow> result action" where
  "get_dividends c lib tr as_dataframe = Fetcher_get c lib tr ''div'' as_dataframe"

definition get_splits :: "constants \<Rightarrow> pandas \<Rightarrow> transport \<Rightarrow> bool \<Rightarrow> result action" where
  "get_splits c lib tr as_dataframe = Fetcher_get c lib tr ''split'' as_dataframe"

section \<open>Notions used to state the properties\<close>

text \<open>A number proper, and what it means for an integer to be its truncation: the
  integer part toward zero, within one of the number and never beyond it.\<close>

fun is_number :: "pynum \<Rightarrow> bool" where
  "is_number (PyInt n) = True"
| "is_number (PyFloat x) = True"
| "is_number x = False"

fun truncation_of :: "pynum \<Rightarrow> int \<Rightarrow> bool" where
  "truncation_of (PyInt n) r = (r = n)"
| "truncation_of (PyFloat x) r = (\<bar>of_int r\<bar> \<le> \<bar>x\<bar> \<and> \<bar>x - of_int r\<bar> < 1)"
| "truncation_of x r = False"

text \<open>The paths \<open>chart.result[0]\<close> of a document and \<open>indicators.quote[0]\<close> of a
  result entry.\<close>

definition chart_result0 :: "json \<Rightarrow> error + json" where
  "chart_result0 j = bind (getitem j ''chart'') (\<lambda>chart. bind (getitem chart ''result'') getitem0)"

definition quote0 :: "json \<Rightarrow> error + json" where
  "quote0 r = bind (getitem r ''indicators'') (\<lambda>inds. bind (getitem inds ''quote'') getitem0)"


text \<open>The steps of \<open>conv_df\<close> after the extraction, from the six values it extracted.\<close>

definition assemble :: "pandas \<Rightarrow> json \<Rightarrow> json \<Rightarrow> json \<Rightarrow> json \<Rightarrow> json \<Rightarrow> json \<Rightarrow> error + dataframe" where
  "assemble lib timestamps open_v high low close volume =
     bind (pd_DataFrame
             [(''timestamp'', timestamps), (''Open'', open_v), (''High'', high),
              (''Low'', low), (''Close'', close), (''Volume'', volume)]) (\<lambda>df.
     bind (df_getcol df ''timestamp'') (\<lambda>ts.
     bind (pd_to_datetime_s lib ts) (\<lambda>times.
     bind (df_setcol df ''time'' times) (\<lambda>df.
     bind (df_getcol df ''time'') (\<lambda>tm.
     bind (series_apply strftime_cell tm) (\<lambda>dates.
     bind (df_setcol df ''Date'' dates) (\<lambda>df.
     bind (df_delcol df ''time'') (\<lambda>df.
     bind (df_delcol df ''timestamp'') (\<lambda>df.
     let cols = df_columns df;
         cols = slice_last cols @ slice_but_last cols
     in df_select df cols)))))))))"

text \<open>
  The proleptic Gregorian calendar, counted in days from 1970-01-01 (day 0): the days
  before a year, before a month of it, and the day number of a date.
\<close>

definition days_before_year :: "int \<Rightarrow> int" where
  "days_before_year y =
     365 * (y - 1970) + ((y - 1) div 4 - (y - 1) div 100 + (y - 1) div 400) - 477"

definition days_in_month :: "int \<Rightarrow> int \<Rightarrow> int" where
  "days_in_month y m =
     (if m = 2 then (if is_leapyear y then 29 else 28)
      else if m = 4 \<or> m = 6 \<or> m = 9 \<or> m = 11 then 30 else 31)"

definition days_before_month :: "int \<Rightarrow> int \<Rightarrow> int" where
  "days_before_month y m = sum_list (map (days_in_month y) [1 .. m - 1])"

definition valid_date :: "int \<Rightarrow> int \<Rightarrow> int \<Rightarrow> bool" where
  "valid_date y m d \<longleftrightarrow> 1 \<le> m \<and> m \<le> 12 \<and> 1 \<le> d \<and> d \<le> days_in_month y m"

definition day_number :: "int \<Rightarrow> int \<Rightarrow> int \<Rightarrow> int" where
  "day_number y m d = days_before_year y + days_before_month y m + (d - 1)"

text \<open>Reading a serialized frame back: the names of the document's members are the
  columns, the names of their members the row labels, each counted once.\<close>

fun members :: "json \<Rightarrow> (string \<times> json) list" where
  "members (JObj kvs) = kvs"
| "members j = []"

definition read_columns :: "json \<Rightarrow> string list" where
  "read_columns doc = remdups (map fst (members doc))"

definition read_index :: "json \<Rightarrow> string list" where
  "read_index doc = remdups (concat (map (\<lambda>(name, col). map fst (members col)) (members doc)))"

text \<open>The spec's end-to-end scenario: the constants with a five-slot template, a pandas
  that holds the instants of the years 1 to 9999, a client for \<open>aapl\<close>, and a transport
  that answers every request with one observation.\<close>

definition scenario_constants :: constants where
  "scenario_constants =
     \<lparr> API_URL = ''https://host/chart/%s?period1=%s&period2=%s&interval=%s&events=%s'',
       DATE_INTERVALS = [''1d'', ''1wk'', ''1mo''], ONE_DAY_INTERVAL = ''1d'' \<rparr>"

definition scenario_pandas :: pandas where
  "scenario_pandas = \<lparr> representable = (\<lambda>ns. - 62135596800000000000 \<le> ns \<and> ns < 253402300800000000000) \<rparr>"

definition scenario_body :: json where
  "scenario_body =
     JObj [(''chart'', JObj [(''result'', JArr [
       JObj [(''timestamp'', JArr [JInt 1609459200]),
             (''indicators'', JObj [(''quote'', JArr [JObj [
                 (''open'', JArr [JFloat 130.0]), (''high'', JArr [JFloat 133.0]),
                 (''low'', JArr [JFloat 129.0]), (''close'', JArr [JFloat 132.0]),
                 (''volume'', JArr [JInt 1000000])]])])]])])]"

definition scenario_transport :: transport where
  "scenario_transport = (\<lambda>url headers. Inr (Response (Some scenario_body)))"

definition scenario_client :: fetcher where
  "scenario_client = \<lparr> ticker = ''AAPL'', interval = ''1d'', start = 1609459200, end' = 1609545600 \<rparr>"

definition scenario_table :: dataframe where
  "scenario_table =
     \<lparr> nrows = 1,
       cols = [(''Date'', [Val (JStr ''2021-01-01'')]), (''Open'', [Val (JFloat 130.0)]),
               (''High'', [Val (JFloat 133.0)]), (''Low'', [Val (JFloat 129.0)]),
               (''Close'', [Val (JFloat 132.0)]), (''Volume'', [Val (JInt 1000000)])] \<rparr>"

section \<open>Basic facts\<close>

lemma bind_Inr [simp]: "bind (Inr x) f = f x" by (simp add: bind_def)
lemma bind_Inl [simp]: "bind (Inl e) f = Inl e" by (simp add: bind_def)

lemma bind_eq_Inr: "bind m f = Inr y \<longleftrightarrow> (\<exists>x. m = Inr x \<and> f x = Inr y)"
  by (cases m) simp_all

lemma py_format_char: "c \<noteq> CHR ''%'' \<Longrightarrow> py_format (c # t) as = bind (py_format t as) (\<lambda>r. Inr (c # r))"
  by (cases t) simp_all

lemma py_format_plain:
  "CHR ''%'' \<notin> set p \<Longrightarrow> py_format (p @ t) as = bind (py_format t as) (\<lambda>r. Inr (p @ r))"
proof (induction p)
  case Nil
  show ?case by (cases "py_format t as") simp_all
next
  case (Cons c p)
  then have c: "c \<noteq> CHR ''%''" and p: "CHR ''%'' \<notin> set p" by auto
  show ?case using Cons.IH [OF p] py_format_char [OF c, of "p @ t" as]
    by (cases "py_format t as") simp_all
qed

lemma py_format_end: "CHR ''%'' \<notin> set p \<Longrightarrow> py_format p [] = Inr p"
  using py_format_plain [of p "[]" "[]"] by simp

lemma py_format_five:
  assumes "\<forall>p \<in> set [p0, p1, p2, p3, p4, p5]. CHR ''%'' \<notin> set p"
  shows "py_format (join ''%s'' [p0, p1, p2, p3, p4, p5]) [a1, a2, a3, a4, a5]
         = Inr (p0 @ py_str a1 @ p1 @ py_str a2 @ p2 @ py_str a3 @ p3 @ py_str a4 @ p4 @ py_str a5 @ p5)"
  using assms by (simp add: py_format_plain py_format_end)

lemma create_url_template:
  assumes "API_URL c = join ''%s'' [p0, p1, p2, p3, p4, p5]"
    and "\<forall>p \<in> set [p0, p1, p2, p3, p4, p5]. CHR ''%'' \<notin> set p"
  shows "create_url c event (self, w) =
           (Inr (p0 @ ticker self @ p1 @ str_int (start self) @ p2 @ str_int (end' self) @ p3
                 @ interval self @ p4 @ event @ p5), self, w)"
  using py_format_five [OF assms(2)] by (simp add: create_url_def assms(1))

lemma digit_char_in: "d < 10 \<Longrightarrow> digit_char d \<in> set ''0123456789''"
  unfolding digit_char_def by (rule nth_mem) simp

lemma str_nat_digits: "set (str_nat n) \<subseteq> set ''0123456789''"
proof (induction n rule: str_nat.induct)
  case (1 n)
  show ?case
  proof (cases "n < 10")
    case True
    then show ?thesis using digit_char_in [of n] by (subst str_nat.simps) simp
  next
    case False
    have "n mod 10 < 10" by simp
    then have "digit_char (n mod 10) \<in> set ''0123456789''" by (rule digit_char_in)
    with False 1 show ?thesis by (subst str_nat.simps) simp
  qed
qed

lemma str_int_chars: "set (str_int i) \<subseteq> set ''-0123456789''"
proof -
  have "set (str_int i) \<subseteq> insert CHR ''-'' (set (str_nat (nat \<bar>i\<bar>)))"
    by (auto simp: str_int_def)
  also have "\<dots> \<subseteq> insert CHR ''-'' (set ''0123456789'')"
    by (rule insert_mono) (rule str_nat_digits)
  finally show ?thesis by (simp only: list.set)
qed

lemma str_int_no_point: "CHR ''.'' \<notin> set (str_int i)"
proof -
  have "CHR ''.'' \<notin> set ''-0123456789''" by simp
  then show ?thesis using str_int_chars [of i] by (rule contra_subsetD [rotated])
qed

lemma py_int_number: "is_number x \<Longrightarrow> \<exists>r. py_int x = Inr r \<and> truncation_of x r"
proof (cases x)
  case (PyFloat v)
  have "\<bar>of_int \<lfloor>v\<rfloor>\<bar> \<le> \<bar>v\<bar> \<and> \<bar>v - of_int \<lfloor>v\<rfloor>\<bar> < 1" if "0 \<le> v" using that by (simp; linarith)
  moreover have "\<bar>of_int \<lceil>v\<rceil>\<bar> \<le> \<bar>v\<bar> \<and> \<bar>v - of_int \<lceil>v\<rceil>\<bar> < 1" if "\<not> 0 \<le> v" using that by (simp; linarith)
  ultimately show ?thesis using PyFloat by auto
qed simp_all

lemma Fetcher_init_numbers:
  assumes "is_number s" and "is_number (case e of None \<Rightarrow> default_end d | Some x \<Rightarrow> x)"
  shows "\<exists>s' e'. py_int s = Inr s' \<and> truncation_of s s'
           \<and> py_int (case e of None \<Rightarrow> default_end d | Some x \<Rightarrow> x) = Inr e'
           \<and> truncation_of (case e of None \<Rightarrow> default_end d | Some x \<Rightarrow> x) e'
           \<and> Fetcher_init d tk s e iv w =
               Inr \<lparr> ticker = upper tk,
                     interval = (case iv of None \<Rightarrow> default_interval d | Some i \<Rightarrow> i),
                     start = s', end' = e' \<rparr>"
proof -
  from py_int_number [OF assms(1)] obtain s' where s: "py_int s = Inr s'" "truncation_of s s'" by blast
  from py_int_number [OF assms(2)] obtain e' where
    e: "py_int (case e of None \<Rightarrow> default_end d | Some x \<Rightarrow> x) = Inr e'"
       "truncation_of (case e of None \<Rightarrow> default_end d | Some x \<Rightarrow> x) e'" by blast
  show ?thesis using s e by (simp add: Fetcher_init_def)
qed

section \<open>Construction and the URL\<close>

text \<open>
  C5. Numbers given for \<open>start\<close> and \<open>end\<close> are stored as their truncations, and a URL
  built from them spells both in the characters of a decimal integer, with no point.
\<close>

theorem init_truncates_times:
  assumes "is_number s" and "is_number e"
    and "API_URL c = join ''%s'' [p0, p1, p2, p3, p4, p5]"
    and "\<forall>p \<in> set [p0, p1, p2, p3, p4, p5]. CHR ''%'' \<notin> set p"
  shows "\<exists>self. Fetcher_init d tk s (Some e) iv w0 = Inr self
           \<and> truncation_of s (start self) \<and> truncation_of e (end' self)
           \<and> fst (create_url c event (self, w)) =
               Inr (p0 @ ticker self @ p1 @ str_int (start self) @ p2 @ str_int (end' self) @ p3
                    @ interval self @ p4 @ event @ p5)
           \<and> set (str_int (start self)) \<subseteq> set ''-0123456789''
           \<and> set (str_int (end' self)) \<subseteq> set ''-0123456789''
           \<and> CHR ''.'' \<notin> set (str_int (start self)) \<and> CHR ''.'' \<notin> set (str_int (end' self))"
proof -
  from Fetcher_init_numbers [where s = s and e = "Some e" and d = d and tk = tk and iv = iv and w = w0]
    assms(1,2)
  obtain s' e' where
    "truncation_of s s'" "truncation_of e e'"
    "Fetcher_init d tk s (Some e) iv w0 =
       Inr \<lparr> ticker = upper tk, interval = (case iv of None \<Rightarrow> default_interval d | Some i \<Rightarrow> i),
             start = s', end' = e' \<rparr>"
    by auto
  then show ?thesis
    using create_url_template [OF assms(3,4)] str_int_chars str_int_no_point by simp
qed

theorem init_truncates_times_witness:
  "is_number (PyFloat 1700000000.7) \<and> is_number (PyFloat (-1.5))
   \<and> (\<exists>self. Fetcher_init \<lparr> default_end = PyFloat 1800000000.25, default_interval = ''1d'' \<rparr>
             ''aapl'' (PyFloat 1700000000.7) (Some (PyFloat (-1.5))) None \<lparr> clock = 5, sent = [] \<rparr> = Inr self
     \<and> start self = 1700000000 \<and> end' self = -1
     \<and> fst (create_url \<lparr> API_URL = ''https://host/chart/%s?period1=%s&period2=%s&interval=%s&events=%s'',
                          DATE_INTERVALS = [''1d'', ''1wk'', ''1mo''], ONE_DAY_INTERVAL = ''1d'' \<rparr>
               ''history'' (self, \<lparr> clock = 6, sent = [] \<rparr>))
         = Inr ''https://host/chart/AAPL?period1=1700000000&period2=-1&interval=1d&events=history'')"
  using init_truncates_times [where s = "PyFloat 1700000000.7" and e = "PyFloat (-1.5)"
      and c = "\<lparr> API_URL = ''https://host/chart/%s?period1=%s&period2=%s&interval=%s&events=%s'',
         DATE_INTERVALS = [''1d'', ''1wk'', ''1mo''], ONE_DAY_INTERVAL = ''1d'' \<rparr>"
      and ?p0.0 = "''https://host/chart/''" and ?p1.0 = "''?period1=''" and ?p2.0 = "''&period2=''"
      and ?p3.0 = "''&interval=''" and ?p4.0 = "''&events=''" and ?p5.0 = "''''"
      and d = "\<lparr> default_end = PyFloat 1800000000.25, default_interval = ''1d'' \<rparr>"
      and tk = "''aapl''" and iv = None and ?w0.0 = "\<lparr> clock = 5, sent = [] \<rparr>"
      and event = "''history''" and w = "\<lparr> clock = 6, sent = [] \<rparr>"]
  by (simp add: Fetcher_init_def upper_def upper_char_def str_int_def str_nat.simps digit_char_def)



text \<open>
  C4 (what the code does). With \<open>end\<close> omitted, the stored end is the truncation of the
  clock read when the module was loaded, whatever the clock says at construction.
\<close>

theorem default_end_is_load_time:
  assumes "is_number s"
  shows "\<exists>self. Fetcher_init (Fetcher_defaults c w0) tk s None iv w = Inr self
           \<and> truncation_of (PyFloat (clock w0)) (end' self)
           \<and> Fetcher_init (Fetcher_defaults c w0) tk s None iv w'
               = Fetcher_init (Fetcher_defaults c w0) tk s None iv w"
  using Fetcher_init_numbers [where s = s and e = None and d = "Fetcher_defaults c w0"
      and tk = tk and iv = iv and w = w] assms
  by (auto simp: Fetcher_defaults_def time_time_def Fetcher_init_def)

theorem default_end_is_load_time_witness:
  "is_number (PyInt 0)
   \<and> Fetcher_init (Fetcher_defaults \<lparr> API_URL = ''%s%s%s%s%s'', DATE_INTERVALS = [''1d''], ONE_DAY_INTERVAL = ''1d'' \<rparr>
                      \<lparr> clock = 1000.5, sent = [] \<rparr>)
        ''aapl'' (PyInt 0) None None \<lparr> clock = 2000.5, sent = [] \<rparr>
      = Inr \<lparr> ticker = ''AAPL'', interval = ''1d'', start = 0, end' = 1000 \<rparr>
   \<and> Fetcher_init (Fetcher_defaults \<lparr> API_URL = ''%s%s%s%s%s'', DATE_INTERVALS = [''1d''], ONE_DAY_INTERVAL = ''1d'' \<rparr>
                      \<lparr> clock = 1000.5, sent = [] \<rparr>)
        ''aapl'' (PyInt 0) None None \<lparr> clock = 3000.5, sent = [] \<rparr>
      = Inr \<lparr> ticker = ''AAPL'', interval = ''1d'', start = 0, end' = 1000 \<rparr>"
  using default_end_is_load_time [where s = "PyInt 0"
      and c = "\<lparr> API_URL = ''%s%s%s%s%s'', DATE_INTERVALS = [''1d''], ONE_DAY_INTERVAL = ''1d'' \<rparr>"
      and ?w0.0 = "\<lparr> clock = 1000.5, sent = [] \<rparr>" and tk = "''aapl''" and iv = None
      and w = "\<lparr> clock = 2000.5, sent = [] \<rparr>" and w' = "\<lparr> clock = 3000.5, sent = [] \<rparr>"]
  by (simp add: Fetcher_init_def Fetcher_defaults_def time_time_def upper_def upper_char_def)

text \<open>
  C8. Each of the five operations returns the object it was called on: no field of it
  has changed, whatever the result, so a next call reads the same four values.
\<close>

theorem operations_keep_fields:
  "fst (snd (create_url c event (self, w))) = self
   \<and> fst (snd (Fetcher_get c lib tr event b (self, w))) = self
   \<and> fst (snd (get_historical c lib tr b (self, w))) = self
   \<and> fst (snd (get_dividends c lib tr b (self, w))) = self
   \<and> fst (snd (get_splits c lib tr b (self, w))) = self"
proof -
  have "fst (snd (Fetcher_get c lib tr ev b (self, w))) = self" for ev
    by (simp add: Fetcher_get_def create_url_def requests_get_def split: sum.splits prod.splits)
  then show ?thesis
    by (simp add: get_historical_def get_dividends_def get_splits_def create_url_def)
qed

theorem operations_keep_fields_witness:
  "fst (snd (get_dividends \<lparr> API_URL = ''https://host/chart/%s?period1=%s&period2=%s&interval=%s&events=%s'',
                       DATE_INTERVALS = [''1d'', ''1wk'', ''1mo''], ONE_DAY_INTERVAL = ''1d'' \<rparr>
        scenario_pandas (\<lambda>url headers. Inr (Response None)) True
        (\<lparr> ticker = ''AAPL'', interval = ''1d'', start = 1, end' = 2 \<rparr>, \<lparr> clock = 7, sent = [] \<rparr>)))
    = \<lparr> ticker = ''AAPL'', interval = ''1d'', start = 1, end' = 2 \<rparr>"
  using operations_keep_fields [where c = "\<lparr> API_URL = ''https://host/chart/%s?period1=%s&period2=%s&interval=%s&events=%s'',
                       DATE_INTERVALS = [''1d'', ''1wk'', ''1mo''], ONE_DAY_INTERVAL = ''1d'' \<rparr>"
      and lib = scenario_pandas and tr = "\<lambda>url headers. Inr (Response None)" and b = True
      and self = "\<lparr> ticker = ''AAPL'', interval = ''1d'', start = 1, end' = 2 \<rparr>"
      and w = "\<lparr> clock = 7, sent = [] \<rparr>"]
  by simp

section \<open>The interval check\<close>

lemma bind_eq_Inl: "bind m f = Inl e \<longleftrightarrow> m = Inl e \<or> (\<exists>x. m = Inr x \<and> f x = Inl e)"
  by (cases m) simp_all

lemma join_contains: "x \<in> set xs \<Longrightarrow> \<exists>pre post. join sep xs = pre @ x @ post"
proof (induction sep xs rule: join.induct)
  case (1 sep)
  then show ?case by simp
next
  case (2 sep y)
  then have "join sep [y] = [] @ x @ []" by simp
  then show ?case by blast
next
  case (3 sep y z zs)
  show ?case
  proof (cases "x = y")
    case True
    then have "join sep (y # z # zs) = [] @ x @ (sep @ join sep (z # zs))" by simp
    then show ?thesis by blast
  next
    case False
    with 3 obtain pre post where "join sep (z # zs) = pre @ x @ post" by auto
    then have "join sep (y # z # zs) = (y @ sep @ pre) @ x @ post" by simp
    then show ?thesis by blast
  qed
qed

text \<open>No failure outside the interval check is the interval error: its message alone
  begins with a capital I.\<close>

lemma interval_error_I:
  "interval_error c = ValueError (CHR ''I'' # ''ncorrect interval: valid intervals are '' @ join '', '' (DATE_INTERVALS c))"
  by (simp add: interval_error_def)

lemma py_format_error: "py_format t as = Inl e \<Longrightarrow> e \<noteq> ValueError (CHR ''I'' # m)"
  by (induction t as rule: py_format.induct)
     (auto simp: bind_eq_Inl split: if_splits list.splits)

lemma getitem_error: "getitem j k = Inl e \<Longrightarrow> e \<noteq> ValueError m"
  by (cases j) (auto split: option.splits)

lemma getitem0_error: "getitem0 j = Inl e \<Longrightarrow> e \<noteq> ValueError m"
  by (induction j rule: getitem0.induct) auto

lemma dict_get_error: "dict_get j k d = Inl e \<Longrightarrow> e \<noteq> ValueError m"
  by (cases j) (auto split: option.splits)

lemma response_json_error: "response_json r = Inl e \<Longrightarrow> e \<noteq> ValueError m"
  by (auto simp: response_json_def split: option.splits)

lemma pd_DataFrame_error: "pd_DataFrame d = Inl e \<Longrightarrow> e \<noteq> ValueError (CHR ''I'' # m)"
  by (auto simp: pd_DataFrame_def Let_def split: option.splits if_splits)

lemma df_getcol_error: "df_getcol df n = Inl e \<Longrightarrow> e \<noteq> ValueError m"
  by (auto simp: df_getcol_def split: option.splits)

lemma df_setcol_error: "df_setcol df n xs = Inl e \<Longrightarrow> e \<noteq> ValueError (CHR ''I'' # m)"
  by (auto simp: df_setcol_def split: if_splits)

lemma df_delcol_error: "df_delcol df n = Inl e \<Longrightarrow> e \<noteq> ValueError m"
  by (auto simp: df_delcol_def split: if_splits)

lemma pd_to_datetime_s_error: "pd_to_datetime_s lib xs = Inl e \<Longrightarrow> e \<noteq> ValueError m"
  by (auto simp: pd_to_datetime_s_def split: if_splits)

lemma series_apply_strftime_error: "series_apply strftime_cell xs = Inl e \<Longrightarrow> e \<noteq> ValueError m"
proof (induction xs)
  case Nil
  then show ?case by simp
next
  case (Cons x xs)
  then show ?case by (cases x) (auto simp: bind_eq_Inl)
qed

lemma df_select_cols_error: "df_select_cols cs names = Inl e \<Longrightarrow> e \<noteq> ValueError m"
  by (induction names) (auto simp: bind_eq_Inl split: option.splits)

lemma df_select_error: "df_select df names = Inl e \<Longrightarrow> e \<noteq> ValueError m"
  by (auto simp: df_select_def bind_eq_Inl dest: df_select_cols_error)

lemma conv_df_assemble:
  "conv_df lib resp =
     bind (response_json resp) (\<lambda>j.
     bind (chart_result0 j) (\<lambda>result0.
     bind (getitem result0 ''timestamp'') (\<lambda>timestamps.
     bind (quote0 result0) (\<lambda>indicators.
     bind (dict_get indicators ''close'' (JArr [])) (\<lambda>close.
     bind (dict_get indicators ''open'' (JArr [])) (\<lambda>open_v.
     bind (dict_get indicators ''high'' (JArr [])) (\<lambda>high.
     bind (dict_get indicators ''low'' (JArr [])) (\<lambda>low.
     bind (dict_get indicators ''volume'' (JArr [])) (\<lambda>volume.
     assemble lib timestamps open_v high low close volume)))))))))"
  unfolding conv_df_def chart_result0_def quote0_def assemble_def
  by (simp add: bind_def split: sum.splits)

lemma assemble_error: "assemble lib t a b c d v = Inl e \<Longrightarrow> e \<noteq> ValueError (CHR ''I'' # m)"
  unfolding assemble_def Let_def bind_eq_Inl
  by (auto dest: pd_DataFrame_error df_getcol_error df_setcol_error df_delcol_error
        pd_to_datetime_s_error series_apply_strftime_error df_select_error)

lemma conv_df_error: "conv_df lib resp = Inl e \<Longrightarrow> e \<noteq> ValueError (CHR ''I'' # m)"
  unfolding conv_df_assemble chart_result0_def quote0_def bind_eq_Inl
  by (auto dest: response_json_error getitem_error getitem0_error dict_get_error assemble_error)

lemma to_json_error: "to_json df = Inl e \<Longrightarrow> e \<noteq> ValueError (CHR ''I'' # m)"
  by (auto simp: to_json_def split: if_splits)

lemma Fetcher_get_invalid:
  "interval self \<notin> set (DATE_INTERVALS c) \<Longrightarrow>
     Fetcher_get c lib tr event b (self, w) = (Inl (interval_error c), self, w)"
  by (simp add: Fetcher_get_def)

lemma Fetcher_get_valid:
  assumes "interval self \<in> set (DATE_INTERVALS c)"
  shows "fst (Fetcher_get c lib tr event b (self, w)) \<noteq> Inl (interval_error c)"
proof
  assume a: "fst (Fetcher_get c lib tr event b (self, w)) = Inl (interval_error c)"
  let ?m = "''ncorrect interval: valid intervals are '' @ join '', '' (DATE_INTERVALS c)"
  have ie: "interval_error c = ValueError (CHR ''I'' # ?m)" by (rule interval_error_I)
  show False
  proof (cases "py_format (API_URL c)
        [ArgStr (ticker self), ArgInt (start self), ArgInt (end' self),
         ArgStr (interval self), ArgStr event]")
    case (Inl e)
    with a assms have "e = interval_error c"
      by (simp add: Fetcher_get_def create_url_def)
    with py_format_error [OF Inl, of ?m] ie show False by simp
  next
    case (Inr url)
    show False
    proof (cases "tr url user_agent")
      case (Inl msg)
      with a assms Inr ie show False
        by (simp add: Fetcher_get_def create_url_def requests_get_def)
    next
      case tr: (Inr data)
      show False
      proof (cases "conv_df lib data")
        case (Inl e)
        with a assms Inr tr have "e = interval_error c"
          by (simp add: Fetcher_get_def create_url_def requests_get_def)
        with conv_df_error [OF Inl, of ?m] ie show False by simp
      next
        case df: (Inr dataframe)
        show False
        proof (cases b)
          case True
          with a assms Inr tr df show False
            by (simp add: Fetcher_get_def create_url_def requests_get_def)
        next
          case False
          with a assms Inr tr df have "bind (to_json dataframe) (\<lambda>s. Inr (Serialized s)) = Inl (interval_error c)"
            by (simp add: Fetcher_get_def create_url_def requests_get_def)
          then have "to_json dataframe = Inl (interval_error c)" by (simp add: bind_eq_Inl)
          with to_json_error [of dataframe "interval_error c" ?m] ie show False by simp
        qed
      qed
    qed
  qed
qed

lemma Fetcher_get_sends:
  assumes "interval self \<in> set (DATE_INTERVALS c)"
    and "fst (create_url c event (self, w)) = Inr url"
  shows "sent (snd (snd (Fetcher_get c lib tr event b (self, w)))) = sent w @ [(url, user_agent)]"
  using assms
  by (simp add: Fetcher_get_def create_url_def requests_get_def split: sum.splits)

text \<open>
  C3. With a stored interval outside \<open>DATE_INTERVALS\<close>, each of the three fetch operations
  returns the interval error and the world as it was, no request handed to the
  collaborator; the error's message contains every accepted interval. With a stored
  interval inside, no fetch operation returns that error, and a call whose URL is built
  hands exactly that one request to the collaborator.
\<close>

theorem interval_checked_before_request:
  "(interval self \<notin> set (DATE_INTERVALS c) \<longrightarrow>
      get_historical c lib tr b (self, w) = (Inl (interval_error c), self, w)
    \<and> get_dividends c lib tr b (self, w) = (Inl (interval_error c), self, w)
    \<and> get_splits c lib tr b (self, w) = (Inl (interval_error c), self, w))
   \<and> (\<forall>iv \<in> set (DATE_INTERVALS c). \<exists>pre post.
         interval_error c = ValueError (''Incorrect interval: valid intervals are '' @ pre @ iv @ post))
   \<and> (interval self \<in> set (DATE_INTERVALS c) \<longrightarrow>
        fst (get_historical c lib tr b (self, w)) \<noteq> Inl (interval_error c)
      \<and> fst (get_dividends c lib tr b (self, w)) \<noteq> Inl (interval_error c)
      \<and> fst (get_splits c lib tr b (self, w)) \<noteq> Inl (interval_error c)
      \<and> (\<forall>url. fst (create_url c ''history'' (self, w)) = Inr url \<longrightarrow>
            sent (snd (snd (get_historical c lib tr b (self, w)))) = sent w @ [(url, user_agent)]))"
proof -
  have "\<exists>pre post. interval_error c = ValueError (''Incorrect interval: valid intervals are '' @ pre @ iv @ post)"
    if "iv \<in> set (DATE_INTERVALS c)" for iv
    using join_contains [OF that, of "'', ''"] unfolding interval_error_def by blast
  then show ?thesis
    unfolding get_historical_def get_dividends_def get_splits_def
    using Fetcher_get_invalid [where self = self and c = c and lib = lib and tr = tr and b = b and w = w]
      Fetcher_get_valid [where self = self and c = c and lib = lib and tr = tr and b = b and w = w]
      Fetcher_get_sends [where self = self and c = c and event = "''history''" and w = w
        and lib = lib and tr = tr and b = b]
    by blast
qed

theorem interval_checked_before_request_witness:
  "''2d'' \<notin> set [''1d'', ''1wk'', ''1mo'']
   \<and> get_historical \<lparr> API_URL = ''https://host/chart/%s?period1=%s&period2=%s&interval=%s&events=%s'',
                       DATE_INTERVALS = [''1d'', ''1wk'', ''1mo''], ONE_DAY_INTERVAL = ''1d'' \<rparr>
        scenario_pandas (\<lambda>url headers. Inl ''unreachable'') True
        (\<lparr> ticker = ''AAPL'', interval = ''2d'', start = 1, end' = 2 \<rparr>, \<lparr> clock = 7, sent = [] \<rparr>)
      = (Inl (ValueError ''Incorrect interval: valid intervals are 1d, 1wk, 1mo''),
         \<lparr> ticker = ''AAPL'', interval = ''2d'', start = 1, end' = 2 \<rparr>, \<lparr> clock = 7, sent = [] \<rparr>)
   \<and> ''1wk'' \<in> set [''1d'', ''1wk'', ''1mo'']
   \<and> get_historical \<lparr> API_URL = ''https://host/chart/%s?period1=%s&period2=%s&interval=%s&events=%s'',
                       DATE_INTERVALS = [''1d'', ''1wk'', ''1mo''], ONE_DAY_INTERVAL = ''1d'' \<rparr>
        scenario_pandas (\<lambda>url headers. Inl ''unreachable'') True
        (\<lparr> ticker = ''AAPL'', interval = ''1wk'', start = 1, end' = 2 \<rparr>, \<lparr> clock = 7, sent = [] \<rparr>)
      = (Inl (TransportError ''unreachable''),
         \<lparr> ticker = ''AAPL'', interval = ''1wk'', start = 1, end' = 2 \<rparr>,
         \<lparr> clock = 7,
           sent = [(''https://host/chart/AAPL?period1=1&period2=2&interval=1wk&events=history'', user_agent)] \<rparr>)"
  using interval_checked_before_request [where c = "\<lparr> API_URL = ''https://host/chart/%s?period1=%s&period2=%s&interval=%s&events=%s'',
                       DATE_INTERVALS = [''1d'', ''1wk'', ''1mo''], ONE_DAY_INTERVAL = ''1d'' \<rparr>"
      and lib = scenario_pandas and tr = "\<lambda>url headers. Inl ''unreachable''" and b = True
      and self = "\<lparr> ticker = ''AAPL'', interval = ''2d'', start = 1, end' = 2 \<rparr>"
      and w = "\<lparr> clock = 7, sent = [] \<rparr>"]
    interval_checked_before_request [where c = "\<lparr> API_URL = ''https://host/chart/%s?period1=%s&period2=%s&interval=%s&events=%s'',
                       DATE_INTERVALS = [''1d'', ''1wk'', ''1mo''], ONE_DAY_INTERVAL = ''1d'' \<rparr>"
      and lib = scenario_pandas and tr = "\<lambda>url headers. Inl ''unreachable''" and b = True
      and self = "\<lparr> ticker = ''AAPL'', interval = ''1wk'', start = 1, end' = 2 \<rparr>"
      and w = "\<lparr> clock = 7, sent = [] \<rparr>"]
  by (simp add: get_historical_def Fetcher_get_def interval_error_def create_url_def requests_get_def
        str_int_def str_nat.simps digit_char_def)

text \<open>
  C9. Construction with numbers for \<open>start\<close> and \<open>end\<close> succeeds for every interval
  string and stores it as given; when it is not an accepted interval, it is each fetch
  operation on the constructed object that returns the interval error.
\<close>

theorem interval_error_deferred:
  assumes "is_number s" and "is_number (case e of None \<Rightarrow> default_end d | Some x \<Rightarrow> x)"
  shows "\<exists>self. Fetcher_init d tk s e (Some iv) w0 = Inr self \<and> interval self = iv
           \<and> (iv \<notin> set (DATE_INTERVALS c) \<longrightarrow>
                fst (get_historical c lib tr b (self, w)) = Inl (interval_error c)
              \<and> fst (get_dividends c lib tr b (self, w)) = Inl (interval_error c)
              \<and> fst (get_splits c lib tr b (self, w)) = Inl (interval_error c))"
proof -
  from Fetcher_init_numbers [OF assms, of tk "Some iv" w0]
  obtain self where self: "Fetcher_init d tk s e (Some iv) w0 = Inr self" "interval self = iv"
    by auto
  then show ?thesis
    by (auto simp: get_historical_def get_dividends_def get_splits_def Fetcher_get_invalid)
qed

theorem interval_error_deferred_witness:
  "is_number (PyInt 1609459200) \<and> is_number (PyFloat 1609545600.5)
   \<and> ''fortnight'' \<notin> set [''1d'', ''1wk'', ''1mo'']
   \<and> Fetcher_init \<lparr> default_end = PyFloat 1800000000.25, default_interval = ''1d'' \<rparr>
        ''aapl'' (PyInt 1609459200) (Some (PyFloat 1609545600.5)) (Some ''fortnight'') \<lparr> clock = 5, sent = [] \<rparr>
      = Inr \<lparr> ticker = ''AAPL'', interval = ''fortnight'', start = 1609459200, end' = 1609545600 \<rparr>
   \<and> fst (get_splits \<lparr> API_URL = ''https://host/chart/%s?period1=%s&period2=%s&interval=%s&events=%s'',
                       DATE_INTERVALS = [''1d'', ''1wk'', ''1mo''], ONE_DAY_INTERVAL = ''1d'' \<rparr>
        scenario_pandas (\<lambda>url headers. Inl ''unreachable'') False
        (\<lparr> ticker = ''AAPL'', interval = ''fortnight'', start = 1609459200, end' = 1609545600 \<rparr>,
         \<lparr> clock = 7, sent = [] \<rparr>))
      = Inl (ValueError ''Incorrect interval: valid intervals are 1d, 1wk, 1mo'')"
  using interval_error_deferred [where s = "PyInt 1609459200" and e = "Some (PyFloat 1609545600.5)"
      and d = "\<lparr> default_end = PyFloat 1800000000.25, default_interval = ''1d'' \<rparr>"
      and tk = "''aapl''" and iv = "''fortnight''" and ?w0.0 = "\<lparr> clock = 5, sent = [] \<rparr>"
      and c = "\<lparr> API_URL = ''https://host/chart/%s?period1=%s&period2=%s&interval=%s&events=%s'',
                       DATE_INTERVALS = [''1d'', ''1wk'', ''1mo''], ONE_DAY_INTERVAL = ''1d'' \<rparr>"
      and lib = scenario_pandas and tr = "\<lambda>url headers. Inl ''unreachable''" and b = False and w = "\<lparr> clock = 7, sent = [] \<rparr>"]
  by (simp add: Fetcher_init_def upper_def upper_char_def get_splits_def Fetcher_get_def interval_error_def)

section \<open>Normalization\<close>

lemma series_apply_strftime:
  "series_apply strftime_cell (map Timestamp ns) = Inr (map (\<lambda>n. Val (JStr (strftime_Ymd n))) ns)"
  by (induction ns) simp_all

lemma pd_to_datetime_s_numbers:
  "list_all is_number_cell xs \<Longrightarrow> list_all (\<lambda>x. representable lib (ns_of_cell x)) xs \<Longrightarrow>
     pd_to_datetime_s lib xs = Inr (map Timestamp (map ns_of_cell xs))"
  by (simp add: pd_to_datetime_s_def)

lemma assemble_arrays:
  assumes "list_all (\<lambda>t. is_number_cell (Val t)) ts"
    and "list_all (\<lambda>t. representable lib (ns_of_cell (Val t))) ts"
    and "length op = length ts" "length hi = length ts" "length lo = length ts"
        "length cl = length ts" "length vo = length ts"
  shows "assemble lib (JArr ts) (JArr op) (JArr hi) (JArr lo) (JArr cl) (JArr vo) =
           Inr \<lparr> nrows = length ts,
                 cols = [(''Date'', map (\<lambda>t. Val (JStr (strftime_Ymd (ns_of_cell (Val t))))) ts),
                         (''Open'', map Val op), (''High'', map Val hi), (''Low'', map Val lo),
                         (''Close'', map Val cl), (''Volume'', map Val vo)] \<rparr>"
proof -
  define rest where "rest = [(''Open'', map Val op), (''High'', map Val hi), (''Low'', map Val lo),
                         (''Close'', map Val cl), (''Volume'', map Val vo)]"
  define tsc where "tsc = map Val ts"
  define times where "times = map Timestamp (map ns_of_cell tsc)"
  define dates where "dates = map (\<lambda>n. Val (JStr (strftime_Ymd n))) (map ns_of_cell tsc)"
  define df0 where "df0 = \<lparr> nrows = length ts, cols = (''timestamp'', tsc) # rest \<rparr>"
  define df1 where "df1 = \<lparr> nrows = length ts, cols = (''timestamp'', tsc) # rest @ [(''time'', times)] \<rparr>"
  define df2 where "df2 = \<lparr> nrows = length ts,
      cols = (''timestamp'', tsc) # rest @ [(''time'', times), (''Date'', dates)] \<rparr>"
  define df3 where "df3 = \<lparr> nrows = length ts, cols = (''timestamp'', tsc) # rest @ [(''Date'', dates)] \<rparr>"
  define df4 where "df4 = \<lparr> nrows = length ts, cols = rest @ [(''Date'', dates)] \<rparr>"
  define df5 where "df5 = \<lparr> nrows = length ts, cols = (''Date'', dates) # rest \<rparr>"
  have s1: "pd_DataFrame
             [(''timestamp'', JArr ts), (''Open'', JArr op), (''High'', JArr hi),
              (''Low'', JArr lo), (''Close'', JArr cl), (''Volume'', JArr vo)] = Inr df0"
    using assms(3-7) by (simp add: pd_DataFrame_def df0_def rest_def tsc_def)
  have s2: "df_getcol df0 ''timestamp'' = Inr tsc"
    by (simp add: df_getcol_def df0_def)
  have n1: "list_all is_number_cell tsc"
    using assms(1) by (simp add: tsc_def list_all_iff)
  have n2: "list_all (\<lambda>x. representable lib (ns_of_cell x)) tsc"
    using assms(2) by (simp add: tsc_def list_all_iff)
  have s3: "pd_to_datetime_s lib tsc = Inr times"
    unfolding times_def using n1 n2 by (rule pd_to_datetime_s_numbers)
  have s4: "df_setcol df0 ''time'' times = Inr df1"
    by (simp add: df_setcol_def df0_def df1_def times_def tsc_def rest_def)
  have s5: "df_getcol df1 ''time'' = Inr times"
    by (simp add: df_getcol_def df1_def rest_def)
  have s6: "series_apply strftime_cell times = Inr dates"
    unfolding times_def dates_def by (rule series_apply_strftime)
  have s7: "df_setcol df1 ''Date'' dates = Inr df2"
    by (simp add: df_setcol_def df1_def df2_def dates_def tsc_def rest_def)
  have s8: "df_delcol df2 ''time'' = Inr df3"
    by (simp add: df_delcol_def df2_def df3_def rest_def)
  have s9: "df_delcol df3 ''timestamp'' = Inr df4"
    by (simp add: df_delcol_def df3_def df4_def rest_def)
  have s10: "df_select df4 (slice_last (df_columns df4) @ slice_but_last (df_columns df4)) = Inr df5"
    by (simp add: df_select_def df_columns_def slice_last_def slice_but_last_def df4_def df5_def rest_def)
  have "assemble lib (JArr ts) (JArr op) (JArr hi) (JArr lo) (JArr cl) (JArr vo) = Inr df5"
    unfolding assemble_def by (simp only: s1 s2 s3 s4 s5 s6 s7 s8 s9 s10 bind_Inr Let_def)
  then show ?thesis by (simp add: df5_def dates_def tsc_def rest_def comp_def)
qed

lemma collect_arrays_Cons:
  "collect_arrays ((k, v) # d) = Some a \<longleftrightarrow>
     (\<exists>xs a'. v = JArr xs \<and> collect_arrays d = Some a' \<and> a = (k, xs) # a')"
  by (cases v) auto

lemma remdups_le1: "length (remdups xs) \<le> 1 \<longleftrightarrow> (\<forall>x \<in> set xs. \<forall>y \<in> set xs. x = y)"
proof -
  have "length (remdups xs) = card (set xs)" by (simp add: length_remdups_card_conv)
  then show ?thesis by (auto simp: card_le_Suc0_iff_eq)
qed

lemma pd_DataFrame_six:
  assumes "pd_DataFrame [(k1, v1), (k2, v2), (k3, v3), (k4, v4), (k5, v5), (k6, v6)] = Inr df"
  shows "\<exists>x1 x2 x3 x4 x5 x6. v1 = JArr x1 \<and> v2 = JArr x2 \<and> v3 = JArr x3 \<and> v4 = JArr x4
           \<and> v5 = JArr x5 \<and> v6 = JArr x6
           \<and> length x2 = length x1 \<and> length x3 = length x1 \<and> length x4 = length x1
           \<and> length x5 = length x1 \<and> length x6 = length x1
           \<and> df = \<lparr> nrows = length x1,
                     cols = [(k1, map Val x1), (k2, map Val x2), (k3, map Val x3),
                             (k4, map Val x4), (k5, map Val x5), (k6, map Val x6)] \<rparr>"
proof -
  from assms obtain arrays where
    a: "collect_arrays [(k1, v1), (k2, v2), (k3, v3), (k4, v4), (k5, v5), (k6, v6)] = Some arrays"
    by (auto simp: pd_DataFrame_def split: option.splits)
  then obtain x1 x2 x3 x4 x5 x6 where
    v: "v1 = JArr x1" "v2 = JArr x2" "v3 = JArr x3" "v4 = JArr x4" "v5 = JArr x5" "v6 = JArr x6"
    and arr: "arrays = [(k1, x1), (k2, x2), (k3, x3), (k4, x4), (k5, x5), (k6, x6)]"
    unfolding collect_arrays_Cons by auto
  let ?lens = "[length x1, length x2, length x3, length x4, length x5, length x6]"
  from assms a arr have le: "length (remdups ?lens) \<le> 1"
    and df: "df = \<lparr> nrows = (case remdups ?lens of [] \<Rightarrow> 0 | n # ns \<Rightarrow> n),
                      cols = [(k1, map Val x1), (k2, map Val x2), (k3, map Val x3),
                             (k4, map Val x4), (k5, map Val x5), (k6, map Val x6)] \<rparr>"
    by (auto simp: pd_DataFrame_def Let_def split: if_splits)
  from le have all: "a = b" if "a \<in> set ?lens" "b \<in> set ?lens" for a b
    unfolding remdups_le1 using that by blast
  have eq: "length x2 = length x1" "length x3 = length x1" "length x4 = length x1"
      "length x5 = length x1" "length x6 = length x1"
    by (rule all; simp)+
  then have "remdups ?lens = [length x1]" by simp
  with df v eq show ?thesis by simp
qed

lemma assemble_Inr:
  assumes "assemble lib tsv ov hv lv cv vv = Inr df"
  shows "\<exists>ts op hi lo cl vo.
           tsv = JArr ts \<and> ov = JArr op \<and> hv = JArr hi \<and> lv = JArr lo
           \<and> cv = JArr cl \<and> vv = JArr vo
           \<and> list_all (\<lambda>t. is_number_cell (Val t)) ts
           \<and> list_all (\<lambda>t. representable lib (ns_of_cell (Val t))) ts
           \<and> length op = length ts \<and> length hi = length ts \<and> length lo = length ts
           \<and> length cl = length ts \<and> length vo = length ts"
proof -
  from assms obtain df0 times where
    f: "pd_DataFrame [(''timestamp'', tsv), (''Open'', ov), (''High'', hv),
              (''Low'', lv), (''Close'', cv), (''Volume'', vv)] = Inr df0"
    and t: "bind (df_getcol df0 ''timestamp'') (pd_to_datetime_s lib) = Inr times"
    unfolding assemble_def bind_eq_Inr by (auto simp: bind_eq_Inr)
  from pd_DataFrame_six [OF f] obtain ts op hi lo cl vo where
    v: "tsv = JArr ts" "ov = JArr op" "hv = JArr hi" "lv = JArr lo" "cv = JArr cl" "vv = JArr vo"
    and len: "length op = length ts" "length hi = length ts" "length lo = length ts"
      "length cl = length ts" "length vo = length ts"
    and df0: "df0 = \<lparr> nrows = length ts,
                     cols = [(''timestamp'', map Val ts), (''Open'', map Val op), (''High'', map Val hi),
                             (''Low'', map Val lo), (''Close'', map Val cl), (''Volume'', map Val vo)] \<rparr>"
    by blast
  from t df0 have "pd_to_datetime_s lib (map Val ts) = Inr times"
    by (simp add: df_getcol_def)
  then have "list_all is_number_cell (map Val ts)"
    and "list_all (\<lambda>x. representable lib (ns_of_cell x)) (map Val ts)"
    by (auto simp: pd_to_datetime_s_def split: if_splits)
  then have "list_all (\<lambda>t. is_number_cell (Val t)) ts"
    and "list_all (\<lambda>t. representable lib (ns_of_cell (Val t))) ts"
    by (simp_all add: list_all_iff)
  with v len show ?thesis by auto
qed

lemma conv_df_Inr:
  assumes "conv_df lib resp = Inr df"
  shows "\<exists>j r q ts op hi lo cl vo.
           response_json resp = Inr j \<and> chart_result0 j = Inr r
           \<and> getitem r ''timestamp'' = Inr (JArr ts) \<and> quote0 r = Inr q
           \<and> dict_get q ''open'' (JArr []) = Inr (JArr op)
           \<and> dict_get q ''high'' (JArr []) = Inr (JArr hi)
           \<and> dict_get q ''low'' (JArr []) = Inr (JArr lo)
           \<and> dict_get q ''close'' (JArr []) = Inr (JArr cl)
           \<and> dict_get q ''volume'' (JArr []) = Inr (JArr vo)
           \<and> list_all (\<lambda>t. is_number_cell (Val t)) ts
           \<and> list_all (\<lambda>t. representable lib (ns_of_cell (Val t))) ts
           \<and> length op = length ts \<and> length hi = length ts \<and> length lo = length ts
           \<and> length cl = length ts \<and> length vo = length ts
           \<and> df = \<lparr> nrows = length ts,
                 cols = [(''Date'', map (\<lambda>t. Val (JStr (strftime_Ymd (ns_of_cell (Val t))))) ts),
                         (''Open'', map Val op), (''High'', map Val hi), (''Low'', map Val lo),
                         (''Close'', map Val cl), (''Volume'', map Val vo)] \<rparr>"
proof -
  from assms obtain j r tsv q cv ov hv lv vv where
    p: "response_json resp = Inr j" "chart_result0 j = Inr r" "getitem r ''timestamp'' = Inr tsv"
       "quote0 r = Inr q"
       "dict_get q ''close'' (JArr []) = Inr cv" "dict_get q ''open'' (JArr []) = Inr ov"
       "dict_get q ''high'' (JArr []) = Inr hv" "dict_get q ''low'' (JArr []) = Inr lv"
       "dict_get q ''volume'' (JArr []) = Inr vv"
    and a: "assemble lib tsv ov hv lv cv vv = Inr df"
    unfolding conv_df_assemble bind_eq_Inr by blast
  from assemble_Inr [OF a] obtain ts op hi lo cl vo where
    v: "tsv = JArr ts" "ov = JArr op" "hv = JArr hi" "lv = JArr lo" "cv = JArr cl" "vv = JArr vo"
    and b: "list_all (\<lambda>t. is_number_cell (Val t)) ts"
           "list_all (\<lambda>t. representable lib (ns_of_cell (Val t))) ts"
    and len: "length op = length ts" "length hi = length ts" "length lo = length ts"
       "length cl = length ts" "length vo = length ts"
    by blast
  from a assemble_arrays [OF b len] v have "df = \<lparr> nrows = length ts,
                 cols = [(''Date'', map (\<lambda>t. Val (JStr (strftime_Ymd (ns_of_cell (Val t))))) ts),
                         (''Open'', map Val op), (''High'', map Val hi), (''Low'', map Val lo),
                         (''Close'', map Val cl), (''Volume'', map Val vo)] \<rparr>"
    by simp
  with p v b len show ?thesis by blast
qed


lemma strftime_example_1: "strftime_Ymd 1609459200000000000 = ''2021-01-01''"
  by code_simp





lemma remdups_two: "a \<in> set xs \<Longrightarrow> b \<in> set xs \<Longrightarrow> a \<noteq> b \<Longrightarrow> 1 < length (remdups xs)"
  using remdups_le1 [of xs] by (metis not_le)

lemma dict_get_array_or_absent:
  assumes "\<forall>v. map_of kvs k = Some v \<longrightarrow> (\<exists>xs. v = JArr xs)"
  shows "\<exists>xs. dict_get (JObj kvs) k (JArr []) = Inr (JArr xs) \<and> (map_of kvs k = None \<longrightarrow> xs = [])"
  using assms by (cases "map_of kvs k") auto

lemma pd_DataFrame_ragged:
  assumes "length x1 \<noteq> length xk"
    and "xk \<in> set [x2, x3, x4, x5, x6]"
  shows "pd_DataFrame [(k1, JArr x1), (k2, JArr x2), (k3, JArr x3), (k4, JArr x4), (k5, JArr x5),
                       (k6, JArr x6)] = Inl (ValueError ''All arrays must be of the same length'')"
proof -
  let ?lens = "[length x1, length x2, length x3, length x4, length x5, length x6]"
  have "length x1 \<in> set ?lens" by simp
  moreover have "length xk \<in> set ?lens" using assms(2) by auto
  ultimately have "1 < length (remdups ?lens)" using assms(1) by (rule remdups_two)
  then show ?thesis by (simp add: pd_DataFrame_def del: remdups.simps)
qed

text \<open>
  C2 (what the code does). When the timestamp array is not empty and one of the five keys
  is absent from the quote object, the absent key's column is the empty list, the frame's
  arrays differ in length, and \<open>conv_df\<close> raises the \<open>ValueError\<close> of the frame's
  constructor: it returns no table.
\<close>

theorem conv_df_missing_key_raises:
  assumes "response_json resp = Inr j" and "chart_result0 j = Inr r"
    and "getitem r ''timestamp'' = Inr (JArr ts)" and "ts \<noteq> []"
    and "quote0 r = Inr (JObj kvs)"
    and "k \<in> set [''open'', ''high'', ''low'', ''close'', ''volume'']"
    and "map_of kvs k = None"
    and "\<forall>k' \<in> set [''open'', ''high'', ''low'', ''close'', ''volume''].
           \<forall>v. map_of kvs k' = Some v \<longrightarrow> (\<exists>xs. v = JArr xs)"
  shows "conv_df lib resp = Inl (ValueError ''All arrays must be of the same length'')"
proof -
  have arr: "\<exists>xs. dict_get (JObj kvs) k' (JArr []) = Inr (JArr xs) \<and> (map_of kvs k' = None \<longrightarrow> xs = [])"
    if "k' \<in> set [''open'', ''high'', ''low'', ''close'', ''volume'']" for k'
    using assms(8) that by (intro dict_get_array_or_absent) blast
  obtain op where op: "dict_get (JObj kvs) ''open'' (JArr []) = Inr (JArr op)"
      "map_of kvs ''open'' = None \<longrightarrow> op = []" using arr [of "''open''"] by auto
  obtain hi where hi: "dict_get (JObj kvs) ''high'' (JArr []) = Inr (JArr hi)"
      "map_of kvs ''high'' = None \<longrightarrow> hi = []" using arr [of "''high''"] by auto
  obtain lo where lo: "dict_get (JObj kvs) ''low'' (JArr []) = Inr (JArr lo)"
      "map_of kvs ''low'' = None \<longrightarrow> lo = []" using arr [of "''low''"] by auto
  obtain cl where cl: "dict_get (JObj kvs) ''close'' (JArr []) = Inr (JArr cl)"
      "map_of kvs ''close'' = None \<longrightarrow> cl = []" using arr [of "''close''"] by auto
  obtain vo where vo: "dict_get (JObj kvs) ''volume'' (JArr []) = Inr (JArr vo)"
      "map_of kvs ''volume'' = None \<longrightarrow> vo = []" using arr [of "''volume''"] by auto
  have "[] \<in> set [op, hi, lo, cl, vo]"
    using assms(6,7) op(2) hi(2) lo(2) cl(2) vo(2) by auto
  moreover have "length ts \<noteq> length ([] :: json list)" using assms(4) by simp
  ultimately have "pd_DataFrame [(''timestamp'', JArr ts), (''Open'', JArr op), (''High'', JArr hi),
      (''Low'', JArr lo), (''Close'', JArr cl), (''Volume'', JArr vo)]
      = Inl (ValueError ''All arrays must be of the same length'')"
    by (intro pd_DataFrame_ragged [where xk = "[]"]) 
  then have "assemble lib (JArr ts) (JArr op) (JArr hi) (JArr lo) (JArr cl) (JArr vo)
      = Inl (ValueError ''All arrays must be of the same length'')"
    by (simp add: assemble_def)
  then show ?thesis
    unfolding conv_df_assemble
    by (simp add: assms(1,2,3,5) op(1) hi(1) lo(1) cl(1) vo(1) del: dict_get.simps)
qed

theorem conv_df_missing_key_raises_witness:
  "(let q = [(''open'', JArr [JFloat 130.0]), (''high'', JArr [JFloat 133.0]),
             (''low'', JArr [JFloat 129.0]), (''close'', JArr [JFloat 132.0])];
        r = JObj [(''timestamp'', JArr [JInt 1609459200]),
                  (''indicators'', JObj [(''quote'', JArr [JObj q])])];
        j = JObj [(''chart'', JObj [(''result'', JArr [r])])]
    in chart_result0 j = Inr r \<and> quote0 r = Inr (JObj q) \<and> map_of q ''volume'' = None
       \<and> conv_df scenario_pandas (Response (Some j)) = Inl (ValueError ''All arrays must be of the same length''))"
  using conv_df_missing_key_raises [where lib = scenario_pandas and
      resp = "Response (Some (JObj [(''chart'', JObj [(''result'', JArr [
                JObj [(''timestamp'', JArr [JInt 1609459200]),
                  (''indicators'', JObj [(''quote'', JArr [JObj [
                      (''open'', JArr [JFloat 130.0]), (''high'', JArr [JFloat 133.0]),
                      (''low'', JArr [JFloat 129.0]), (''close'', JArr [JFloat 132.0])]])])]])])]))"
      and j = "JObj [(''chart'', JObj [(''result'', JArr [
                JObj [(''timestamp'', JArr [JInt 1609459200]),
                  (''indicators'', JObj [(''quote'', JArr [JObj [
                      (''open'', JArr [JFloat 130.0]), (''high'', JArr [JFloat 133.0]),
                      (''low'', JArr [JFloat 129.0]), (''close'', JArr [JFloat 132.0])]])])]])])]"
      and r = "JObj [(''timestamp'', JArr [JInt 1609459200]),
                  (''indicators'', JObj [(''quote'', JArr [JObj [
                      (''open'', JArr [JFloat 130.0]), (''high'', JArr [JFloat 133.0]),
                      (''low'', JArr [JFloat 129.0]), (''close'', JArr [JFloat 132.0])]])])]"
      and ts = "[JInt 1609459200]"
      and kvs = "[(''open'', JArr [JFloat 130.0]), (''high'', JArr [JFloat 133.0]),
                      (''low'', JArr [JFloat 129.0]), (''close'', JArr [JFloat 132.0])]"
      and k = "''volume''"]
  by (simp add: response_json_def chart_result0_def quote0_def)

section \<open>Serialization\<close>

lemma digit_char_inj: "a < 10 \<Longrightarrow> b < 10 \<Longrightarrow> digit_char a = digit_char b \<Longrightarrow> a = b"
proof -
  assume a: "a < 10" and b: "b < 10" and eq: "digit_char a = digit_char b"
  have d: "distinct ''0123456789''" by simp
  have "a < length ''0123456789''" "b < length ''0123456789''" using a b by simp_all
  with d eq show "a = b" unfolding digit_char_def by (simp only: nth_eq_iff_index_eq)
qed

lemma str_nat_nonempty: "str_nat n \<noteq> []"
  by (subst str_nat.simps) simp

lemma str_nat_small: "n < 10 \<Longrightarrow> str_nat n = [digit_char n]"
  by (subst str_nat.simps) simp

lemma str_nat_large: "\<not> n < 10 \<Longrightarrow> str_nat n = str_nat (n div 10) @ [digit_char (n mod 10)]"
  by (subst str_nat.simps) simp

lemma str_nat_inj: "str_nat m = str_nat n \<Longrightarrow> m = n"
proof (induction m arbitrary: n rule: str_nat.induct)
  case (1 m)
  show ?case
  proof (cases "m < 10")
    case True
    with "1.prems" have one: "str_nat n = [digit_char m]" by (simp add: str_nat_small)
    have "n < 10"
    proof (rule ccontr)
      assume "\<not> n < 10"
      then have "str_nat n = str_nat (n div 10) @ [digit_char (n mod 10)]" by (rule str_nat_large)
      with one str_nat_nonempty [of "n div 10"] show False by simp
    qed
    with one have "digit_char n = digit_char m" by (simp add: str_nat_small)
    with True \<open>n < 10\<close> show ?thesis using digit_char_inj by metis
  next
    case False
    then have m: "str_nat m = str_nat (m div 10) @ [digit_char (m mod 10)]" by (rule str_nat_large)
    have n10: "\<not> n < 10"
    proof
      assume "n < 10"
      then have "str_nat n = [digit_char n]" by (rule str_nat_small)
      with m "1.prems" str_nat_nonempty [of "m div 10"] show False by simp
    qed
    then have n: "str_nat n = str_nat (n div 10) @ [digit_char (n mod 10)]" by (rule str_nat_large)
    from m n "1.prems" have eq: "str_nat (m div 10) = str_nat (n div 10)"
      and dg: "digit_char (m mod 10) = digit_char (n mod 10)" by simp_all
    from "1.IH" [OF False eq] have q: "m div 10 = n div 10" .
    have "m mod 10 < 10" "n mod 10 < 10" by simp_all
    with dg have r: "m mod 10 = n mod 10" using digit_char_inj by metis
    from q r show ?thesis by (metis div_mult_mod_eq)
  qed
qed

lemma distinct_labels: "distinct (map str_nat [0 ..< n])"
  by (simp add: distinct_map inj_on_def) (metis str_nat_inj)

lemma to_json_normalized:
  assumes "length dt = n" "length op = n" "length hi = n" "length lo = n" "length cl = n" "length vo = n"
    and "df = \<lparr> nrows = n,
               cols = [(''Date'', dt), (''Open'', op), (''High'', hi), (''Low'', lo),
                       (''Close'', cl), (''Volume'', vo)] \<rparr>"
  shows "\<exists>doc. to_json df = Inr doc
           \<and> read_columns doc = [''Date'', ''Open'', ''High'', ''Low'', ''Close'', ''Volume'']
           \<and> set (read_index doc) = set (map str_nat [0 ..< n])
           \<and> length (read_index doc) = n"
proof -
  let ?L = "map str_nat [0 ..< n]"
  let ?col = "\<lambda>xs. JObj (zip ?L (map cell_json xs))"
  let ?doc = "JObj [(''Date'', ?col dt), (''Open'', ?col op), (''High'', ?col hi), (''Low'', ?col lo),
                   (''Close'', ?col cl), (''Volume'', ?col vo)]"
  have doc: "to_json df = Inr ?doc"
    using assms by (simp add: to_json_def df_columns_def)
  have c: "read_columns ?doc = [''Date'', ''Open'', ''High'', ''Low'', ''Close'', ''Volume'']"
    by (simp add: read_columns_def)
  have lab: "map fst (zip ?L (map cell_json xs)) = ?L" if "length xs = n" for xs
    using that by (simp add: map_fst_zip)
  have idx: "read_index ?doc = remdups (?L @ ?L @ ?L @ ?L @ ?L @ ?L)"
    using assms(1-6) by (simp add: read_index_def lab del: map_map upt.simps)
  have s: "set (read_index ?doc) = set ?L" unfolding idx by (simp del: upt.simps)
  have "length (read_index ?doc) = card (set (?L @ ?L @ ?L @ ?L @ ?L @ ?L))"
    unfolding idx by (rule length_remdups_card_conv)
  also have "\<dots> = card (set ?L)" by (simp del: upt.simps)
  also have "\<dots> = length ?L" using distinct_labels [of n] by (rule distinct_card)
  finally have l: "length (read_index ?doc) = n" by simp
  from doc c s l show ?thesis by blast
qed

lemma scenario_conv_df: "conv_df scenario_pandas (Response (Some scenario_body)) = Inr scenario_table"
  by (simp add: conv_df_def scenario_body_def scenario_table_def response_json_def pd_DataFrame_def
        df_getcol_def pd_to_datetime_s_def scenario_pandas_def df_setcol_def df_delcol_def
        df_columns_def slice_last_def slice_but_last_def df_select_def strftime_example_1)

lemma scenario_get_table:
  "fst (Fetcher_get scenario_constants scenario_pandas scenario_transport ''history'' True
          (scenario_client, \<lparr> clock = 7, sent = [] \<rparr>)) = Inr (Table scenario_table)"
  by (simp add: Fetcher_get_def scenario_constants_def scenario_client_def create_url_def
        requests_get_def scenario_transport_def scenario_conv_df)

lemma Fetcher_get_Table:
  assumes "fst (Fetcher_get c lib tr event True (self, w)) = Inr (Table df)"
  shows "\<exists>url data. interval self \<in> set (DATE_INTERVALS c)
           \<and> fst (create_url c event (self, w)) = Inr url
           \<and> tr url user_agent = Inr data \<and> conv_df lib data = Inr df"
  using assms
  by (auto simp: Fetcher_get_def create_url_def requests_get_def split: if_splits sum.splits)

lemma Fetcher_get_Serialized:
  assumes "interval self \<in> set (DATE_INTERVALS c)"
    and "fst (create_url c event (self, w)) = Inr url"
    and "tr url user_agent = Inr data" and "conv_df lib data = Inr df"
  shows "fst (Fetcher_get c lib tr event False (self, w)) = bind (to_json df) (\<lambda>s. Inr (Serialized s))"
  using assms by (simp add: Fetcher_get_def create_url_def requests_get_def)

text \<open>
  C7. When a fetch in table mode returns a table, the same fetch in the other mode returns
  the serialization of that table, and reading it back gives the table's column names,
  which are Date, Open, High, Low, Close and Volume, and as many row labels as the table
  has rows.
\<close>

theorem serialized_table_reads_back:
  assumes "fst (Fetcher_get c lib tr event True (self, w)) = Inr (Table df)"
  shows "\<exists>doc. fst (Fetcher_get c lib tr event False (self, w)) = Inr (Serialized doc)
           \<and> to_json df = Inr doc
           \<and> set (read_columns doc) = set (df_columns df)
           \<and> set (df_columns df) = {''Date'', ''Open'', ''High'', ''Low'', ''Close'', ''Volume''}
           \<and> length (read_index doc) = nrows df"
proof -
  from Fetcher_get_Table [OF assms] obtain url data where
    g: "interval self \<in> set (DATE_INTERVALS c)" "fst (create_url c event (self, w)) = Inr url"
       "tr url user_agent = Inr data" "conv_df lib data = Inr df"
    by blast
  from conv_df_Inr [OF g(4)] obtain ts op hi lo cl vo where
    len: "length op = length ts" "length hi = length ts" "length lo = length ts"
         "length cl = length ts" "length vo = length ts"
    and df: "df = \<lparr> nrows = length ts,
                 cols = [(''Date'', map (\<lambda>t. Val (JStr (strftime_Ymd (ns_of_cell (Val t))))) ts),
                         (''Open'', map Val op), (''High'', map Val hi), (''Low'', map Val lo),
                         (''Close'', map Val cl), (''Volume'', map Val vo)] \<rparr>"
    by blast
  have "\<exists>doc. to_json df = Inr doc
           \<and> read_columns doc = [''Date'', ''Open'', ''High'', ''Low'', ''Close'', ''Volume'']
           \<and> set (read_index doc) = set (map str_nat [0 ..< length ts])
           \<and> length (read_index doc) = length ts"
    by (rule to_json_normalized [OF _ _ _ _ _ _ df]) (simp_all add: len)
  then obtain doc where doc: "to_json df = Inr doc"
    "read_columns doc = [''Date'', ''Open'', ''High'', ''Low'', ''Close'', ''Volume'']"
    "length (read_index doc) = length ts"
    by blast
  have "fst (Fetcher_get c lib tr event False (self, w)) = Inr (Serialized doc)"
    using Fetcher_get_Serialized [where tr = tr, OF g] doc(1) by simp
  moreover have "df_columns df = [''Date'', ''Open'', ''High'', ''Low'', ''Close'', ''Volume'']"
    by (simp add: df df_columns_def)
  moreover have "nrows df = length ts" by (simp add: df)
  ultimately show ?thesis using doc by auto
qed

theorem serialized_table_reads_back_witness:
  "fst (Fetcher_get scenario_constants scenario_pandas scenario_transport ''history'' True
          (scenario_client, \<lparr> clock = 7, sent = [] \<rparr>)) = Inr (Table scenario_table)
   \<and> fst (Fetcher_get scenario_constants scenario_pandas scenario_transport ''history'' False
          (scenario_client, \<lparr> clock = 7, sent = [] \<rparr>))
      = Inr (Serialized (JObj [(''Date'', JObj [(''0'', JStr ''2021-01-01'')]),
                               (''Open'', JObj [(''0'', JFloat 130.0)]),
                               (''High'', JObj [(''0'', JFloat 133.0)]),
                               (''Low'', JObj [(''0'', JFloat 129.0)]),
                               (''Close'', JObj [(''0'', JFloat 132.0)]),
                               (''Volume'', JObj [(''0'', JInt 1000000)])]))
   \<and> read_columns (JObj [(''Date'', JObj [(''0'', JStr ''2021-01-01'')]),
                               (''Open'', JObj [(''0'', JFloat 130.0)]),
                               (''High'', JObj [(''0'', JFloat 133.0)]),
                               (''Low'', JObj [(''0'', JFloat 129.0)]),
                               (''Close'', JObj [(''0'', JFloat 132.0)]),
                               (''Volume'', JObj [(''0'', JInt 1000000)])])
      = [''Date'', ''Open'', ''High'', ''Low'', ''Close'', ''Volume'']
   \<and> read_index (JObj [(''Date'', JObj [(''0'', JStr ''2021-01-01'')]),
                               (''Open'', JObj [(''0'', JFloat 130.0)]),
                               (''High'', JObj [(''0'', JFloat 133.0)]),
                               (''Low'', JObj [(''0'', JFloat 129.0)]),
                               (''Close'', JObj [(''0'', JFloat 132.0)]),
                               (''Volume'', JObj [(''0'', JInt 1000000)])]) = [''0'']"
  using serialized_table_reads_back [where c = scenario_constants and lib = scenario_pandas
      and tr = scenario_transport
      and event = "''history''" and self = scenario_client and w = "\<lparr> clock = 7, sent = [] \<rparr>"
      and df = scenario_table]
    scenario_get_table
  by (simp add: Fetcher_get_def scenario_constants_def scenario_client_def create_url_def
        requests_get_def scenario_transport_def scenario_conv_df to_json_def scenario_table_def
        df_columns_def str_nat.simps digit_char_def read_columns_def read_index_def)

section \<open>The calendar date of a timestamp\<close>

lemma div_unique_int: "a = b * k + r \<Longrightarrow> 0 \<le> r \<Longrightarrow> r < b \<Longrightarrow> (a::int) div b = k"
  by (rule int_div_pos_eq)

lemma mod_unique_int: "a = b * k + r \<Longrightarrow> 0 \<le> r \<Longrightarrow> r < b \<Longrightarrow> (a::int) mod b = r"
  by (rule int_mod_pos_eq)

lemma year_div4:
  fixes q c f g :: int
  assumes "0 \<le> g" "g \<le> 3"
  shows "(1999 + 400 * q + 100 * c + 4 * f + g) div 4
         = 499 + 100 * q + 25 * c + f + (if g = 0 then 0 else 1)"
proof (cases "g = 0")
  case True
  then show ?thesis by (intro div_unique_int [where r = 3]) simp_all
next
  case False
  with assms show ?thesis by (intro div_unique_int [where r = "g - 1"]) simp_all
qed

lemma year_div100:
  fixes q c f g :: int
  assumes "0 \<le> f" "f \<le> 24" "0 \<le> g" "g \<le> 3"
  shows "(1999 + 400 * q + 100 * c + 4 * f + g) div 100
         = 19 + 4 * q + c + (if f = 0 \<and> g = 0 then 0 else 1)"
proof (cases "f = 0 \<and> g = 0")
  case True
  then show ?thesis by (intro div_unique_int [where r = 99]) simp_all
next
  case False
  with assms show ?thesis by (intro div_unique_int [where r = "4 * f + g - 1"]) auto
qed

lemma year_div400:
  fixes q c f g :: int
  assumes "0 \<le> c" "c \<le> 3" "0 \<le> f" "f \<le> 24" "0 \<le> g" "g \<le> 3"
  shows "(1999 + 400 * q + 100 * c + 4 * f + g) div 400
         = 4 + q + (if c = 0 \<and> f = 0 \<and> g = 0 then 0 else 1)"
proof (cases "c = 0 \<and> f = 0 \<and> g = 0")
  case True
  then show ?thesis by (intro div_unique_int [where r = 399]) simp_all
next
  case False
  with assms show ?thesis by (intro div_unique_int [where r = "100 * c + 4 * f + g - 1"]) auto
qed

lemma year_parts:
  fixes q c f g :: int
  assumes "0 \<le> c" "c \<le> 3" "0 \<le> f" "f \<le> 24" "0 \<le> g" "g \<le> 3"
  shows "days_before_year (2000 + 400 * q + 100 * c + 4 * f + g)
         = 10957 + 146097 * q + 36524 * c + 1461 * f + 365 * g
           + (if c = 0 \<and> f = 0 \<and> g = 0 then 0 else 1)
           - (if f = 0 \<and> g = 0 then 0 else 1)
           + (if g = 0 then 0 else 1)"
proof -
  have e: "2000 + 400 * q + 100 * c + 4 * f + g - 1 = 1999 + 400 * q + 100 * c + 4 * f + g" by simp
  show ?thesis
    unfolding days_before_year_def e
      year_div4 [OF assms(5,6)] year_div100 [OF assms(3-6)] year_div400 [OF assms]
    by simp
qed

lemma leap_parts:
  fixes q c f g :: int
  assumes "0 \<le> c" "c \<le> 3" "0 \<le> f" "f \<le> 24" "0 \<le> g" "g \<le> 3"
  shows "is_leapyear (2000 + 400 * q + 100 * c + 4 * f + g) \<longleftrightarrow> g = 0 \<and> (f \<noteq> 0 \<or> c = 0)"
proof -
  let ?y = "2000 + 400 * q + 100 * c + 4 * f + g"
  have m4: "?y mod 4 = g"
    using assms by (intro mod_unique_int [where k = "500 + 100 * q + 25 * c + f"]) simp_all
  have m100: "?y mod 100 = 4 * f + g"
    using assms by (intro mod_unique_int [where k = "20 + 4 * q + c"]) simp_all
  have m400: "?y mod 400 = 100 * c + 4 * f + g"
    using assms by (intro mod_unique_int [where k = "5 + q"]) simp_all
  show ?thesis unfolding is_leapyear_def m4 m100 m400 using assms by auto
qed

lemma days_to_yearsdays_correct:
  assumes "days_to_yearsdays n = (y, r)"
  shows "days_before_year y + r = n \<and> 0 \<le> r \<and> r < (if is_leapyear y then 366 else 365)"
proof -
  define q where "q = (n - 10957) div 146097"
  define a where "a = (n - 10957) mod 146097"
  have n: "n = 10957 + 146097 * q + a" and a: "0 \<le> a" "a < 146097"
    by (simp_all add: q_def a_def)
  define c where "c = (a - 1) div 36524"
  define e where "e = (a - 1) mod 36524"
  have ae: "a = 1 + 36524 * c + e" and e: "0 \<le> e" "e < 36524"
    by (simp_all add: c_def e_def)
  define f where "f = (e + 1) div 1461"
  define h where "h = (e + 1) mod 1461"
  have eh: "e = 1461 * f + h - 1" and h: "0 \<le> h" "h < 1461"
    by (simp_all add: f_def h_def)
  define g where "g = (h - 1) div 365"
  define k where "k = (h - 1) mod 365"
  have hk: "h = 1 + 365 * g + k" and k: "0 \<le> k" "k < 365"
    by (simp_all add: g_def k_def)
  have "days_to_yearsdays n =
      (if a \<ge> 366 then
         if e \<ge> 365 then
           if h \<ge> 366 then (400 * q + 100 * c + 4 * f + g + 2000, k)
           else (400 * q + 100 * c + 4 * f + 2000, h)
         else (400 * q + 100 * c + 2000, e)
       else (400 * q + 2000, a))"
    unfolding days_to_yearsdays_def Let_def q_def a_def c_def e_def f_def h_def g_def k_def
    by simp
  with assms have res: "(y, r) =
      (if a \<ge> 366 then
         if e \<ge> 365 then
           if h \<ge> 366 then (400 * q + 100 * c + 4 * f + g + 2000, k)
           else (400 * q + 100 * c + 4 * f + 2000, h)
         else (400 * q + 100 * c + 2000, e)
       else (400 * q + 2000, a))"
    by simp
  show ?thesis
  proof (cases "a \<ge> 366")
    case False
    with res have yr: "y = 2000 + 400 * q + 100 * 0 + 4 * 0 + 0" "r = a" by simp_all
    show ?thesis
      unfolding yr using year_parts [of 0 0 0 q] leap_parts [of 0 0 0 q] n a False by simp
  next
    case a366: True
    have c: "0 \<le> c" "c \<le> 3" using a a366 ae e by linarith+
    show ?thesis
    proof (cases "e \<ge> 365")
      case False
      with res a366 have yr: "y = 2000 + 400 * q + 100 * c + 4 * 0 + 0" "r = e" by simp_all
      have "c \<noteq> 0" using a366 ae False by auto
      then show ?thesis
        unfolding yr using year_parts [of c 0 0 q] leap_parts [of c 0 0 q] n ae e c False by simp
    next
      case e365: True
      have f: "0 \<le> f" "f \<le> 24" using e e365 eh h by linarith+
      show ?thesis
      proof (cases "h \<ge> 366")
        case False
        with res a366 e365 have yr: "y = 2000 + 400 * q + 100 * c + 4 * f + 0" "r = h" by simp_all
        have "f \<noteq> 0" using e365 eh False by auto
        then show ?thesis
          unfolding yr using year_parts [of c f 0 q] leap_parts [of c f 0 q] n ae eh h c f False
          by simp
      next
        case h366: True
        with res a366 e365 have yr: "y = 2000 + 400 * q + 100 * c + 4 * f + g" "r = k" by simp_all
        have g: "1 \<le> g" "g \<le> 3" using h h366 hk k by linarith+
        then show ?thesis
          unfolding yr using year_parts [of c f g q] leap_parts [of c f g q] n ae eh hk k c f
          by simp
      qed
    qed
  qed
qed

lemma month_day_correct:
  assumes "month_day (month_lengths (is_leapyear y)) 0 r = (m, d)"
    and "0 \<le> r" and "r < (if is_leapyear y then 366 else 365)"
  shows "valid_date y m d \<and> days_before_month y m + (d - 1) = r"
  using assms
  by (auto simp: month_lengths_def valid_date_def days_in_month_def days_before_month_def
        upto.simps split: if_splits)

lemma civil_of_days_correct:
  assumes "civil_of_days n = (y, m, d)"
  shows "valid_date y m d \<and> day_number y m d = n"
proof -
  obtain y' r where yr: "days_to_yearsdays n = (y', r)" by (cases "days_to_yearsdays n")
  obtain m' d' where md: "month_day (month_lengths (is_leapyear y')) 0 r = (m', d')"
    by (cases "month_day (month_lengths (is_leapyear y')) 0 r")
  from assms yr md have eq: "y = y'" "m = m'" "d = d'" by (simp_all add: civil_of_days_def)
  from days_to_yearsdays_correct [OF yr] have
    r: "days_before_year y' + r = n" "0 \<le> r" "r < (if is_leapyear y' then 366 else 365)" by simp_all
  from month_day_correct [OF md r(2,3)] r(1) show ?thesis
    unfolding eq day_number_def by simp
qed

lemma seconds_day: "t * 1000000000 div 86400000000000 = t div (86400 :: int)"
proof -
  have "t * 1000000000 div (1000000000 * 86400) = t * 1000000000 div 1000000000 div 86400"
    by (rule zdiv_zmult2_eq) simp
  then show ?thesis by simp
qed

lemma strftime_Ymd_calendar:
  "\<exists>y m d. valid_date y m d \<and> day_number y m d = ns div 86400000000000
     \<and> strftime_Ymd ns
         = zfill 4 (str_int y) @ ''-'' @ zfill 2 (str_int m) @ ''-'' @ zfill 2 (str_int d)"
proof -
  obtain y m d where c: "civil_of_days (ns div 86400000000000) = (y, m, d)"
    by (cases "civil_of_days (ns div 86400000000000)") auto
  from civil_of_days_correct [OF c]
  have "valid_date y m d" "day_number y m d = ns div 86400000000000"
    by simp_all
  moreover have "strftime_Ymd ns
         = zfill 4 (str_int y) @ ''-'' @ zfill 2 (str_int m) @ ''-'' @ zfill 2 (str_int d)"
    by (simp add: strftime_Ymd_def c)
  ultimately show ?thesis by blast
qed

text \<open>
  C10. In every table that \<open>conv_df\<close> returns, the Date of row \<open>i\<close> spells, as year,
  month and day, a date of the calendar whose day number, counted from 1970-01-01, is
  the whole number of 86400-second days in timestamp \<open>i\<close> (for an integer timestamp
  \<open>t\<close>, \<open>t div 86400\<close>): the date at that instant in UTC. No time zone enters the
  computation.
\<close>

theorem dates_are_utc_dates:
  assumes "conv_df lib resp = Inr df"
  shows "\<exists>j r ts dates.
           response_json resp = Inr j \<and> chart_result0 j = Inr r
           \<and> getitem r ''timestamp'' = Inr (JArr ts)
           \<and> map_of (cols df) ''Date'' = Some (map (\<lambda>s. Val (JStr s)) dates)
           \<and> length dates = length ts \<and> nrows df = length ts
           \<and> (\<forall>i < length ts. \<exists>y m d.
                 valid_date y m d
                 \<and> day_number y m d = ns_of_cell (Val (ts ! i)) div 86400000000000
                 \<and> (\<forall>t. ts ! i = JInt t \<longrightarrow> day_number y m d = t div 86400)
                 \<and> dates ! i = zfill 4 (str_int y) @ ''-'' @ zfill 2 (str_int m) @ ''-''
                                @ zfill 2 (str_int d))"
proof -
  from conv_df_Inr [OF assms] obtain j r ts op hi lo cl vo where
    p: "response_json resp = Inr j" "chart_result0 j = Inr r"
       "getitem r ''timestamp'' = Inr (JArr ts)"
    and df: "df = \<lparr> nrows = length ts,
                 cols = [(''Date'', map (\<lambda>t. Val (JStr (strftime_Ymd (ns_of_cell (Val t))))) ts),
                         (''Open'', map Val op), (''High'', map Val hi), (''Low'', map Val lo),
                         (''Close'', map Val cl), (''Volume'', map Val vo)] \<rparr>"
    by blast
  define dates where "dates = map (\<lambda>t. strftime_Ymd (ns_of_cell (Val t))) ts"
  have "map_of (cols df) ''Date'' = Some (map (\<lambda>s. Val (JStr s)) dates)"
    by (simp add: df dates_def comp_def)
  moreover have "length dates = length ts" "nrows df = length ts" by (simp_all add: dates_def df)
  moreover have "\<exists>y m d. valid_date y m d
                 \<and> day_number y m d = ns_of_cell (Val (ts ! i)) div 86400000000000
                 \<and> (\<forall>t. ts ! i = JInt t \<longrightarrow> day_number y m d = t div 86400)
                 \<and> dates ! i = zfill 4 (str_int y) @ ''-'' @ zfill 2 (str_int m) @ ''-''
                                @ zfill 2 (str_int d)" if "i < length ts" for i
  proof -
    from strftime_Ymd_calendar [of "ns_of_cell (Val (ts ! i))"] obtain y m d where
      c: "valid_date y m d" "day_number y m d = ns_of_cell (Val (ts ! i)) div 86400000000000"
         "strftime_Ymd (ns_of_cell (Val (ts ! i)))
            = zfill 4 (str_int y) @ ''-'' @ zfill 2 (str_int m) @ ''-'' @ zfill 2 (str_int d)"
      by blast
    have "day_number y m d = t div 86400" if "ts ! i = JInt t" for t
      using c(2) that by (simp add: seconds_day)
    moreover have "dates ! i = zfill 4 (str_int y) @ ''-'' @ zfill 2 (str_int m) @ ''-''
                                @ zfill 2 (str_int d)"
      using c(3) \<open>i < length ts\<close> by (simp add: dates_def)
    ultimately show ?thesis using c(1,2) by blast
  qed
  ultimately show ?thesis using p by blast
qed

theorem dates_are_utc_dates_witness:
  "conv_df scenario_pandas (Response (Some scenario_body)) = Inr scenario_table
   \<and> map_of (cols scenario_table) ''Date'' = Some [Val (JStr ''2021-01-01'')]
   \<and> valid_date 2021 1 1 \<and> day_number 2021 1 1 = 1609459200 div 86400
   \<and> ''2021-01-01'' = zfill 4 (str_int 2021) @ ''-'' @ zfill 2 (str_int 1) @ ''-'' @ zfill 2 (str_int 1)"
proof -
  have s: "zfill 4 (str_int 2021) @ ''-'' @ zfill 2 (str_int 1) @ ''-'' @ zfill 2 (str_int 1) = ''2021-01-01''"
    by (simp add: zfill_def str_int_def str_nat.simps digit_char_def)
  have v: "valid_date 2021 1 1" by (simp add: valid_date_def days_in_month_def)
  have n: "day_number 2021 1 1 = 1609459200 div 86400"
    by (simp add: day_number_def days_before_year_def days_before_month_def)
  have d: "map_of (cols scenario_table) ''Date'' = Some [Val (JStr ''2021-01-01'')]"
    by (simp add: scenario_table_def)
  from dates_are_utc_dates [OF scenario_conv_df] scenario_conv_df s v n d show ?thesis
    by (simp only: simp_thms)
qed

end
